theory Spec2Isabelle
  imports Complex_Main "HOL-Library.AList"
begin

section \<open>The MT5 bridge server: data model\<close>

text \<open>
  The development embeds the class \<^verbatim>\<open>MT5Bridge\<close> of \<^verbatim>\<open>mt5_bridge_server.py\<close> and the
  REST handlers in front of it. The bridge talks to two external systems: the
  \<^verbatim>\<open>MetaTrader5\<close> package (the terminal session) and \<^verbatim>\<open>socketio\<close> (the broadcaster).
  Both are opaque, so they are parameters of the model: every external function takes
  the state of the outside world (type \<open>'w\<close>) and returns its reply with the next world.
  A reply is either a raised exception (\<open>Inl\<close> of its message, what \<^verbatim>\<open>str(e)\<close> gives) or a
  returned value (\<open>Inr\<close>). Python floats are values of an arbitrary type \<open>'p\<close>; the only
  float operation of the program is the subtraction in \<^verbatim>\<open>get_market_data\<close>.
\<close>

type_synonym exn = string

datatype 'p pyval = PNone | PBool bool | PInt int | PFloat 'p | PStr string

type_synonym 'p pydict = "(string \<times> 'p pyval) list"

text \<open>The named tuples of the MetaTrader5 package, with the fields the program reads.
  \<^verbatim>\<open>_asdict()\<close> turns a named tuple into a dictionary of the same fields; the model keeps
  the record.\<close>

record 'p account =
  acc_login :: int
  acc_balance :: 'p
  acc_equity :: 'p

record symbol_info =
  sym_name :: string

record 'p tick =
  time :: int
  bid :: 'p
  ask :: 'p
  volume_real :: 'p

record 'p position =
  pos_ticket :: int
  pos_symbol :: string
  pos_volume :: 'p
  pos_type :: int

record 'p pending_order =
  ord_ticket :: int
  ord_symbol :: string
  ord_volume :: 'p
  ord_type :: int

record order_result =
  retcode :: int
  res_order :: int
  res_comment :: string

text \<open>Modelled from the spec: the constants of the MetaTrader5 package are not part of
  the repository. The spec only names them (buy and sell sides, market-deal action, GTC time
  policy, immediate-or-cancel fill policy, success return code); the numbers are those
  of the package. The theorems use only that buy and sell differ.\<close>

definition ORDER_TYPE_BUY :: int where "ORDER_TYPE_BUY = 0"
definition ORDER_TYPE_SELL :: int where "ORDER_TYPE_SELL = 1"
definition POSITION_TYPE_BUY :: int where "POSITION_TYPE_BUY = 0"
definition POSITION_TYPE_SELL :: int where "POSITION_TYPE_SELL = 1"
definition TRADE_ACTION_DEAL :: int where "TRADE_ACTION_DEAL = 1"
definition ORDER_TIME_GTC :: int where "ORDER_TIME_GTC = 0"
definition ORDER_FILLING_IOC :: int where "ORDER_FILLING_IOC = 1"
definition TRADE_RETCODE_DONE :: int where "TRADE_RETCODE_DONE = 10009"

text \<open>What \<^verbatim>\<open>socketio.emit\<close> is given: a market-data dictionary, the list of positions or
  the account snapshot (\<^verbatim>\<open>None\<close> when the refresh failed).\<close>

datatype 'p payload =
    PayDict "'p pydict"
  | PayPositions "'p position list"
  | PayAccount "'p account option"

text \<open>The outside world: the functions of \<^verbatim>\<open>mt5\<close> the bridge calls, \<^verbatim>\<open>socketio.emit\<close>,
  Python's \<^verbatim>\<open>int()\<close> on a string (\<open>None\<close> for \<^verbatim>\<open>ValueError\<close>) and the float literal
  \<^verbatim>\<open>0.01\<close>. \<^verbatim>\<open>positions_get\<close> takes the optional keyword \<^verbatim>\<open>ticket\<close>.\<close>

record ('w, 'p) env =
  mt5_initialize :: "'w \<Rightarrow> (exn + bool) \<times> 'w"
  mt5_login :: "int \<Rightarrow> string \<Rightarrow> string \<Rightarrow> 'w \<Rightarrow> (exn + bool) \<times> 'w"
  mt5_account_info :: "'w \<Rightarrow> (exn + 'p account option) \<times> 'w"
  mt5_symbols_get :: "'w \<Rightarrow> (exn + symbol_info list option) \<times> 'w"
  mt5_positions_get :: "int option \<Rightarrow> 'w \<Rightarrow> (exn + 'p position list option) \<times> 'w"
  mt5_orders_get :: "'w \<Rightarrow> (exn + 'p pending_order list option) \<times> 'w"
  mt5_symbol_info :: "string \<Rightarrow> 'w \<Rightarrow> (exn + symbol_info option) \<times> 'w"
  mt5_symbol_info_tick :: "string \<Rightarrow> 'w \<Rightarrow> (exn + 'p tick option) \<times> 'w"
  mt5_order_send :: "'p pydict \<Rightarrow> 'w \<Rightarrow> (exn + order_result option) \<times> 'w"
  mt5_shutdown :: "'w \<Rightarrow> (exn + unit) \<times> 'w"
  socketio_emit :: "string \<Rightarrow> 'p payload \<Rightarrow> 'w \<Rightarrow> (exn + unit) \<times> 'w"
  py_int :: "string \<Rightarrow> int option"
  float_0_01 :: 'p

text \<open>Every external call and its reply is recorded, in order, with the starts and joins
  of the worker thread and the sleeps of the worker. The record is only observed by the
  theorems; no function of the bridge reads it.\<close>

datatype 'p event =
    Initialize "exn + bool"
  | Login int string string "exn + bool"
  | AccountInfo "exn + 'p account option"
  | SymbolsGet "exn + symbol_info list option"
  | PositionsGet "int option" "exn + 'p position list option"
  | OrdersGet "exn + 'p pending_order list option"
  | SymbolInfo string "exn + symbol_info option"
  | SymbolInfoTick string "exn + 'p tick option"
  | OrderSend "'p pydict" "exn + order_result option"
  | Shutdown "exn + unit"
  | Emit string "'p payload" "exn + unit"
  | ThreadStart
  | ThreadJoin
  | Sleep nat

text \<open>The fields of \<^verbatim>\<open>MT5Bridge\<close>, with the world and the record of events.
  \<^verbatim>\<open>market_data\<close> is a dictionary in insertion order.\<close>

datatype thread = Thread

record ('w, 'p) state =
  connected :: bool
  account_info :: "'p account option"
  symbols :: "string list"
  market_data :: "(string \<times> 'p pydict) list"
  positions :: "'p position list"
  orders :: "'p pending_order list"
  data_thread :: "thread option"
  running :: bool
  world :: 'w
  trace :: "'p event list"

text \<open>\<^verbatim>\<open>MT5Bridge.__init__\<close>\<close>

definition init :: "'w \<Rightarrow> ('w, 'p) state" where
  "init w = \<lparr>connected = False, account_info = None, symbols = [], market_data = [],
     positions = [], orders = [], data_thread = None, running = False,
     world = w, trace = []\<rparr>"

text \<open>An external call: the world moves on and the event is appended.\<close>

definition call :: "('w \<Rightarrow> 'r \<times> 'w) \<Rightarrow> ('r \<Rightarrow> 'p event) \<Rightarrow> ('w, 'p) state \<Rightarrow> 'r \<times> ('w, 'p) state" where
  "call f ev st = (case f (world st) of (r, w') \<Rightarrow> (r, st\<lparr>world := w', trace := trace st @ [ev r]\<rparr>))"

definition log_event :: "'p event \<Rightarrow> ('w, 'p) state \<Rightarrow> ('w, 'p) state" where
  "log_event e st = st\<lparr>trace := trace st @ [e]\<rparr>"


section \<open>Python helpers\<close>

text \<open>\<^verbatim>\<open>str()\<close> of an integer, for the f-strings.\<close>

function str_nat :: "nat \<Rightarrow> string" where
  "str_nat n = (if n < 10 then [''0123456789'' ! n] else str_nat (n div 10) @ [''0123456789'' ! (n mod 10)])"
  by pat_completeness auto
termination
  by (relation "measure (\<lambda>n. n)") auto

definition str_int :: "int \<Rightarrow> string" where
  "str_int i = (if i < 0 then ''-'' @ str_nat (nat (- i)) else str_nat (nat i))"

text \<open>\<^verbatim>\<open>str.lower()\<close>; the handlers only compare its result with \<^verbatim>\<open>'buy'\<close>.\<close>

definition lower_char :: "char \<Rightarrow> char" where
  "lower_char c = (case map_of (zip ''ABCDEFGHIJKLMNOPQRSTUVWXYZ'' ''abcdefghijklmnopqrstuvwxyz'') c of
       None \<Rightarrow> c | Some l \<Rightarrow> l)"

definition lower :: "string \<Rightarrow> string" where
  "lower s = map lower_char s"

text \<open>The credentials as the JSON body gives them: \<^verbatim>\<open>login\<close> is absent, a number or a
  string. \<open>credentials\<close> is the test \<^verbatim>\<open>login and password and server\<close>.\<close>

datatype login_arg = LoginNone | LoginInt int | LoginStr string

fun truthy_login :: "login_arg \<Rightarrow> bool" where
  "truthy_login LoginNone = False"
| "truthy_login (LoginInt i) = (i \<noteq> 0)"
| "truthy_login (LoginStr s) = (s \<noteq> [])"

fun credentials :: "login_arg \<Rightarrow> string option \<Rightarrow> string option \<Rightarrow> (login_arg \<times> string \<times> string) option" where
  "credentials l (Some p) (Some s) = (if truthy_login l \<and> p \<noteq> [] \<and> s \<noteq> [] then Some (l, p, s) else None)"
| "credentials l p s = None"

text \<open>\<^verbatim>\<open>int(login)\<close>, \<open>None\<close> when it raises.\<close>

fun int_login :: "('w, 'p) env \<Rightarrow> login_arg \<Rightarrow> int option" where
  "int_login env LoginNone = None"
| "int_login env (LoginInt i) = Some i"
| "int_login env (LoginStr s) = py_int env s"

definition opt_float :: "'p option \<Rightarrow> 'p pyval" where
  "opt_float x = (case x of None \<Rightarrow> PNone | Some v \<Rightarrow> PFloat v)"

definition err :: "string \<Rightarrow> 'p pydict" where
  "err msg = [(''error'', PStr msg)]"

text \<open>The message of the \<^verbatim>\<open>AttributeError\<close> raised by \<^verbatim>\<open>result.retcode\<close> when
  \<^verbatim>\<open>order_send\<close> returned \<^verbatim>\<open>None\<close>.\<close>

definition none_retcode :: string where
  "none_retcode = [CHR 0x27] @ ''NoneType'' @ [CHR 0x27] @ '' object has no attribute ''
      @ [CHR 0x27] @ ''retcode'' @ [CHR 0x27]"

section \<open>MT5Bridge\<close>

text \<open>\<^verbatim>\<open>connect\<close>: every exception is caught and gives \<^verbatim>\<open>False\<close>. Logging is not modelled.\<close>

definition connect :: "('w, 'p) env \<Rightarrow> login_arg \<Rightarrow> string option \<Rightarrow> string option \<Rightarrow> ('w, 'p) state \<Rightarrow> bool \<times> ('w, 'p) state" where
  "connect env login password server st =
    (case call (mt5_initialize env) Initialize st of
       (Inl e, st1) \<Rightarrow> (False, st1)
     | (Inr ok, st1) \<Rightarrow>
         if \<not> ok then (False, st1)
         else
           (case (case credentials login password server of
                    None \<Rightarrow> (Inr True, st1)
                  | Some (l, p, s) \<Rightarrow>
                      (case int_login env l of
                         None \<Rightarrow> (Inl ''ValueError'', st1)
                       | Some n \<Rightarrow> call (mt5_login env n p s) (Login n p s) st1)) of
              (Inl e, st2) \<Rightarrow> (False, st2)
            | (Inr logged, st2) \<Rightarrow>
                if \<not> logged then (False, st2)
                else
                  (case call (mt5_account_info env) AccountInfo st2 of
                     (Inl e, st3) \<Rightarrow> (False, st3)
                   | (Inr None, st3) \<Rightarrow> (False, st3)
                   | (Inr (Some a), st3) \<Rightarrow>
                       (case call (mt5_symbols_get env) SymbolsGet
                               (st3\<lparr>account_info := Some a, connected := True\<rparr>) of
                          (Inl e, st4) \<Rightarrow> (False, st4)
                        | (Inr None, st4) \<Rightarrow> (True, st4)
                        | (Inr (Some []), st4) \<Rightarrow> (True, st4)
                        | (Inr (Some (x # xs)), st4) \<Rightarrow>
                            (True, st4\<lparr>symbols := map sym_name (take 50 (x # xs))\<rparr>)))))"

text \<open>\<^verbatim>\<open>disconnect\<close> has no \<^verbatim>\<open>try\<close>: an exception of \<^verbatim>\<open>mt5.shutdown()\<close> leaves the method
  (\<open>Inl\<close>) before \<^verbatim>\<open>self.connected = False\<close>. The worker is modelled one iteration at a
  time, so the join is an event between two iterations.\<close>

definition disconnect :: "('w, 'p) env \<Rightarrow> ('w, 'p) state \<Rightarrow> (exn + unit) \<times> ('w, 'p) state" where
  "disconnect env st =
    (let st1 = st\<lparr>running := False\<rparr>;
         st2 = (case data_thread st1 of None \<Rightarrow> st1 | Some t \<Rightarrow> log_event ThreadJoin st1)
     in case call (mt5_shutdown env) Shutdown st2 of
          (Inl e, st3) \<Rightarrow> (Inl e, st3)
        | (Inr u, st3) \<Rightarrow> (Inr (), st3\<lparr>connected := False\<rparr>))"

definition get_account_info :: "('w, 'p) env \<Rightarrow> ('w, 'p) state \<Rightarrow> 'p account option \<times> ('w, 'p) state" where
  "get_account_info env st =
    (if \<not> connected st then (None, st)
     else case call (mt5_account_info env) AccountInfo st of
            (Inl e, st1) \<Rightarrow> (None, st1)
          | (Inr None, st1) \<Rightarrow> (None, st1)
          | (Inr (Some a), st1) \<Rightarrow> (Some a, st1\<lparr>account_info := Some a\<rparr>))"

definition get_positions :: "('w, 'p) env \<Rightarrow> ('w, 'p) state \<Rightarrow> 'p position list \<times> ('w, 'p) state" where
  "get_positions env st =
    (if \<not> connected st then ([], st)
     else case call (mt5_positions_get env None) (PositionsGet None) st of
            (Inl e, st1) \<Rightarrow> ([], st1)
          | (Inr None, st1) \<Rightarrow> ([], st1)
          | (Inr (Some []), st1) \<Rightarrow> ([], st1)
          | (Inr (Some (p # ps)), st1) \<Rightarrow> (p # ps, st1\<lparr>positions := p # ps\<rparr>))"

definition get_orders :: "('w, 'p) env \<Rightarrow> ('w, 'p) state \<Rightarrow> 'p pending_order list \<times> ('w, 'p) state" where
  "get_orders env st =
    (if \<not> connected st then ([], st)
     else case call (mt5_orders_get env) OrdersGet st of
            (Inl e, st1) \<Rightarrow> ([], st1)
          | (Inr None, st1) \<Rightarrow> ([], st1)
          | (Inr (Some []), st1) \<Rightarrow> ([], st1)
          | (Inr (Some (x # xs)), st1) \<Rightarrow> (x # xs, st1\<lparr>orders := x # xs\<rparr>))"

text \<open>\<^verbatim>\<open>place_order\<close>: \<open>pr\<close> is the price after the step "Get current price if not
  provided", or the dictionary that step returns early.\<close>

definition place_order :: "('w, 'p) env \<Rightarrow> string \<Rightarrow> int \<Rightarrow> 'p \<Rightarrow> 'p option \<Rightarrow> 'p option \<Rightarrow> 'p option \<Rightarrow> string
    \<Rightarrow> ('w, 'p) state \<Rightarrow> 'p pydict \<times> ('w, 'p) state" where
  "place_order env symbol order_type volume price sl tp comment st =
    (if \<not> connected st then (err ''Not connected to MT5'', st)
     else case call (mt5_symbol_info env symbol) (SymbolInfo symbol) st of
            (Inl e, st1) \<Rightarrow> (err e, st1)
          | (Inr None, st1) \<Rightarrow> (err (''Symbol '' @ symbol @ '' not found''), st1)
          | (Inr (Some symbol_info), st1) \<Rightarrow>
              (case (case price of
                       Some p \<Rightarrow> (Inr p, st1)
                     | None \<Rightarrow>
                         (case call (mt5_symbol_info_tick env symbol) (SymbolInfoTick symbol) st1 of
                            (Inl e, st2) \<Rightarrow> (Inl (err e), st2)
                          | (Inr None, st2) \<Rightarrow> (Inl (err (''Failed to get price for '' @ symbol)), st2)
                          | (Inr (Some tick), st2) \<Rightarrow>
                              (Inr (if order_type = ORDER_TYPE_BUY then ask tick else bid tick), st2))) of
                 (Inl d, st2) \<Rightarrow> (d, st2)
               | (Inr pr, st2) \<Rightarrow>
                   (let request =
                      [(''action'', PInt TRADE_ACTION_DEAL),
                       (''symbol'', PStr symbol),
                       (''volume'', PFloat volume),
                       (''type'', PInt order_type),
                       (''price'', PFloat pr),
                       (''sl'', opt_float sl),
                       (''tp'', opt_float tp),
                       (''comment'', PStr comment),
                       (''type_time'', PInt ORDER_TIME_GTC),
                       (''type_filling'', PInt ORDER_FILLING_IOC)]
                    in case call (mt5_order_send env request) (OrderSend request) st2 of
                         (Inl e, st3) \<Rightarrow> (err e, st3)
                       | (Inr None, st3) \<Rightarrow> (err none_retcode, st3)
                       | (Inr (Some result), st3) \<Rightarrow>
                           if retcode result \<noteq> TRADE_RETCODE_DONE
                           then (err (''Order failed: '' @ res_comment result), st3)
                           else ([(''success'', PBool True),
                                  (''order_id'', PInt (res_order result)),
                                  (''retcode'', PInt (retcode result)),
                                  (''comment'', PStr (res_comment result))], st3))))"

definition close_position :: "('w, 'p) env \<Rightarrow> int \<Rightarrow> ('w, 'p) state \<Rightarrow> 'p pydict \<times> ('w, 'p) state" where
  "close_position env ticket st =
    (if \<not> connected st then (err ''Not connected to MT5'', st)
     else case call (mt5_positions_get env (Some ticket)) (PositionsGet (Some ticket)) st of
            (Inl e, st1) \<Rightarrow> (err e, st1)
          | (Inr None, st1) \<Rightarrow> (err (''Position '' @ str_int ticket @ '' not found''), st1)
          | (Inr (Some []), st1) \<Rightarrow> (err (''Position '' @ str_int ticket @ '' not found''), st1)
          | (Inr (Some (position # rest)), st1) \<Rightarrow>
              (let close_type = (if pos_type position = POSITION_TYPE_BUY
                                 then ORDER_TYPE_SELL else ORDER_TYPE_BUY)
               in case call (mt5_symbol_info_tick env (pos_symbol position))
                            (SymbolInfoTick (pos_symbol position)) st1 of
                    (Inl e, st2) \<Rightarrow> (err e, st2)
                  | (Inr None, st2) \<Rightarrow> (err (''Failed to get price for '' @ pos_symbol position), st2)
                  | (Inr (Some tick), st2) \<Rightarrow>
                      (let price = (if close_type = ORDER_TYPE_SELL then bid tick else ask tick);
                           request =
                             [(''action'', PInt TRADE_ACTION_DEAL),
                              (''symbol'', PStr (pos_symbol position)),
                              (''volume'', PFloat (pos_volume position)),
                              (''type'', PInt close_type),
                              (''position'', PInt ticket),
                              (''price'', PFloat price),
                              (''comment'', PStr ''WingZero Close''),
                              (''type_time'', PInt ORDER_TIME_GTC),
                              (''type_filling'', PInt ORDER_FILLING_IOC)]
                       in case call (mt5_order_send env request) (OrderSend request) st2 of
                            (Inl e, st3) \<Rightarrow> (err e, st3)
                          | (Inr None, st3) \<Rightarrow> (err none_retcode, st3)
                          | (Inr (Some result), st3) \<Rightarrow>
                              if retcode result \<noteq> TRADE_RETCODE_DONE
                              then (err (''Close failed: '' @ res_comment result), st3)
                              else ([(''success'', PBool True),
                                     (''order_id'', PInt (res_order result)),
                                     (''retcode'', PInt (retcode result))], st3))))"

definition get_market_data :: "('w, 'p::minus) env \<Rightarrow> string \<Rightarrow> ('w, 'p) state \<Rightarrow> 'p pydict option \<times> ('w, 'p) state" where
  "get_market_data env symbol st =
    (if \<not> connected st then (None, st)
     else case call (mt5_symbol_info_tick env symbol) (SymbolInfoTick symbol) st of
            (Inl e, st1) \<Rightarrow> (None, st1)
          | (Inr None, st1) \<Rightarrow> (None, st1)
          | (Inr (Some tick), st1) \<Rightarrow>
              (Some [(''symbol'', PStr symbol),
                     (''bid'', PFloat (bid tick)),
                     (''ask'', PFloat (ask tick)),
                     (''spread'', PFloat (ask tick - bid tick)),
                     (''timestamp'', PInt (time tick * 1000)),
                     (''volume'', PFloat (volume_real tick))], st1))"

definition start_data_stream :: "('w, 'p) state \<Rightarrow> ('w, 'p) state" where
  "start_data_stream st =
    (if running st then st
     else log_event ThreadStart (st\<lparr>running := True, data_thread := Some Thread\<rparr>))"

section \<open>The worker thread\<close>

definition major_pairs :: "string list" where
  "major_pairs = [''EURUSD'', ''GBPUSD'', ''USDJPY'', ''USDCHF'', ''AUDUSD'', ''USDCAD'', ''NZDUSD'']"

text \<open>The \<^verbatim>\<open>for\<close> loop of \<^verbatim>\<open>_data_stream_worker\<close> over a list of symbols. The first
  component is the exception that left the loop, if any (only \<^verbatim>\<open>socketio.emit\<close> can raise
  here: \<^verbatim>\<open>get_market_data\<close> catches its own).\<close>

fun stream_symbols :: "('w, 'p::minus) env \<Rightarrow> string list \<Rightarrow> ('w, 'p) state \<Rightarrow> exn option \<times> ('w, 'p) state" where
  "stream_symbols env [] st = (None, st)"
| "stream_symbols env (symbol # rest) st =
    (case get_market_data env symbol st of
       (None, st1) \<Rightarrow> stream_symbols env rest st1
     | (Some data, st1) \<Rightarrow>
         (case call (socketio_emit env ''market_data'' (PayDict data)) (Emit ''market_data'' (PayDict data))
                 (st1\<lparr>market_data := AList.update symbol data (market_data st1)\<rparr>) of
            (Inl e, st2) \<Rightarrow> (Some e, st2)
          | (Inr u, st2) \<Rightarrow> stream_symbols env rest st2))"

text \<open>One pass through the body of the \<^verbatim>\<open>while\<close> loop; \<open>now\<close> is what
  \<^verbatim>\<open>int(time.time())\<close> reads.\<close>

definition worker_iteration :: "('w, 'p::minus) env \<Rightarrow> int \<Rightarrow> ('w, 'p) state \<Rightarrow> ('w, 'p) state" where
  "worker_iteration env now st =
    (case stream_symbols env major_pairs st of
       (Some e, st1) \<Rightarrow> log_event (Sleep 5) st1
     | (None, st1) \<Rightarrow>
         if now mod 5 = 0 then
           (case get_positions env st1 of (ps, st2) \<Rightarrow>
             (case get_account_info env st2 of (account, st3) \<Rightarrow>
               (case call (socketio_emit env ''positions_update'' (PayPositions ps))
                          (Emit ''positions_update'' (PayPositions ps)) st3 of
                  (Inl e, st4) \<Rightarrow> log_event (Sleep 5) st4
                | (Inr u, st4) \<Rightarrow>
                    (case call (socketio_emit env ''account_update'' (PayAccount account))
                               (Emit ''account_update'' (PayAccount account)) st4 of
                       (Inl e, st5) \<Rightarrow> log_event (Sleep 5) st5
                     | (Inr u, st5) \<Rightarrow> log_event (Sleep 1) st5))))
         else log_event (Sleep 1) st1)"

text \<open>The \<^verbatim>\<open>while\<close> loop, run on the clock readings of its iterations. It returns when
  \<^verbatim>\<open>running and connected\<close> fails; \<open>None\<close> says that the readings ran out first.\<close>

fun data_stream_worker :: "('w, 'p::minus) env \<Rightarrow> int list \<Rightarrow> ('w, 'p) state \<Rightarrow> ('w, 'p) state option" where
  "data_stream_worker env clock st =
    (if running st \<and> connected st
     then (case clock of [] \<Rightarrow> None | now # later \<Rightarrow> data_stream_worker env later (worker_iteration env now st))
     else Some st)"

section \<open>The REST handlers\<close>

text \<open>A handler returns the body given to \<^verbatim>\<open>jsonify\<close> and the status code (200 when the
  source gives none). The handlers that share a name with a method of the bridge carry
  the suffix \<open>_route\<close>.\<close>

datatype 'p body =
    JDict "'p pydict"
  | JAccount "'p account"
  | JPositions "'p position list"
  | JOrders "'p pending_order list"

type_synonym 'p response = "'p body \<times> nat"

definition connect_mt5 :: "('w, 'p) env \<Rightarrow> login_arg \<Rightarrow> string option \<Rightarrow> string option \<Rightarrow> ('w, 'p) state
    \<Rightarrow> 'p response \<times> ('w, 'p) state" where
  "connect_mt5 env login password server st =
    (case connect env login password server st of
       (True, st1) \<Rightarrow>
         ((JDict [(''success'', PBool True), (''message'', PStr ''Connected to MT5'')], 200),
          start_data_stream st1)
     | (False, st1) \<Rightarrow> ((JDict (err ''Failed to connect to MT5''), 500), st1))"

text \<open>An exception of \<^verbatim>\<open>disconnect\<close> leaves the handler as well.\<close>

definition disconnect_mt5 :: "('w, 'p) env \<Rightarrow> ('w, 'p) state \<Rightarrow> (exn + 'p response) \<times> ('w, 'p) state" where
  "disconnect_mt5 env st =
    (case disconnect env st of
       (Inl e, st1) \<Rightarrow> (Inl e, st1)
     | (Inr u, st1) \<Rightarrow>
         (Inr (JDict [(''success'', PBool True), (''message'', PStr ''Disconnected from MT5'')], 200), st1))"

definition get_account :: "('w, 'p) env \<Rightarrow> ('w, 'p) state \<Rightarrow> 'p response \<times> ('w, 'p) state" where
  "get_account env st =
    (if \<not> connected st then ((JDict (err ''Not connected to MT5''), 400), st)
     else case get_account_info env st of
            (Some account, st1) \<Rightarrow> ((JAccount account, 200), st1)
          | (None, st1) \<Rightarrow> ((JDict (err ''Failed to get account info''), 500), st1))"

definition get_positions_route :: "('w, 'p) env \<Rightarrow> ('w, 'p) state \<Rightarrow> 'p response \<times> ('w, 'p) state" where
  "get_positions_route env st =
    (if \<not> connected st then ((JDict (err ''Not connected to MT5''), 400), st)
     else case get_positions env st of (ps, st1) \<Rightarrow> ((JPositions ps, 200), st1))"

definition get_orders_route :: "('w, 'p) env \<Rightarrow> ('w, 'p) state \<Rightarrow> 'p response \<times> ('w, 'p) state" where
  "get_orders_route env st =
    (if \<not> connected st then ((JDict (err ''Not connected to MT5''), 400), st)
     else case get_orders env st of (os, st1) \<Rightarrow> ((JOrders os, 200), st1))"

text \<open>The JSON body of \<^verbatim>\<open>POST /api/v1/orders\<close>, well-typed: an absent key is \<open>None\<close>.\<close>

record 'p order_json =
  oj_symbol :: string
  oj_type :: "string option"
  oj_volume :: "'p option"
  oj_price :: "'p option"
  oj_stop_loss :: "'p option"
  oj_take_profit :: "'p option"
  oj_comment :: "string option"

definition place_order_route :: "('w, 'p) env \<Rightarrow> 'p order_json \<Rightarrow> ('w, 'p) state \<Rightarrow> 'p response \<times> ('w, 'p) state" where
  "place_order_route env data st =
    (if \<not> connected st then ((JDict (err ''Not connected to MT5''), 400), st)
     else
       (let symbol = oj_symbol data;
            order_type = (case oj_type data of None \<Rightarrow> ''buy'' | Some t \<Rightarrow> t);
            volume = (case oj_volume data of None \<Rightarrow> float_0_01 env | Some v \<Rightarrow> v);
            comment = (case oj_comment data of None \<Rightarrow> ''WingZero'' | Some c \<Rightarrow> c);
            mt5_order_type = (if lower order_type = ''buy'' then ORDER_TYPE_BUY else ORDER_TYPE_SELL)
        in case place_order env symbol mt5_order_type volume (oj_price data) (oj_stop_loss data)
                  (oj_take_profit data) comment st of
             (result, st1) \<Rightarrow>
               if ''error'' \<in> set (map fst result) then ((JDict result, 400), st1)
               else ((JDict result, 200), st1)))"

definition close_position_route :: "('w, 'p) env \<Rightarrow> int \<Rightarrow> ('w, 'p) state \<Rightarrow> 'p response \<times> ('w, 'p) state" where
  "close_position_route env ticket st =
    (if \<not> connected st then ((JDict (err ''Not connected to MT5''), 400), st)
     else case close_position env ticket st of
            (result, st1) \<Rightarrow>
              if ''error'' \<in> set (map fst result) then ((JDict result, 400), st1)
              else ((JDict result, 200), st1))"

definition get_market_data_route :: "('w, 'p::minus) env \<Rightarrow> string \<Rightarrow> ('w, 'p) state \<Rightarrow> 'p response \<times> ('w, 'p) state" where
  "get_market_data_route env symbol st =
    (if \<not> connected st then ((JDict (err ''Not connected to MT5''), 400), st)
     else case get_market_data env symbol st of
            (Some data, st1) \<Rightarrow> ((JDict data, 200), st1)
          | (None, st1) \<Rightarrow> ((JDict (err (''Failed to get data for '' @ symbol)), 404), st1))"

section \<open>Observations on the record of events\<close>

text \<open>The events a call added.\<close>

definition new_events :: "('w, 'p) state \<Rightarrow> ('w, 'p) state \<Rightarrow> 'p event list" where
  "new_events st st' = drop (length (trace st)) (trace st')"



text \<open>The venue executed the deal: the last event is an \<^verbatim>\<open>order_send\<close> that returned the
  return code \<^verbatim>\<open>TRADE_RETCODE_DONE\<close>.\<close>

fun done_event :: "'p event \<Rightarrow> bool" where
  "done_event (OrderSend req (Inr (Some result))) = (retcode result = TRADE_RETCODE_DONE)"
| "done_event e = False"

definition deal_done :: "'p event list \<Rightarrow> bool" where
  "deal_done evs = (evs \<noteq> [] \<and> done_event (last evs))"

text \<open>The symbols whose tick was asked for, the tick replies that carried a tick (as
  the dictionary \<^verbatim>\<open>get_market_data\<close> builds), and the \<^verbatim>\<open>market_data\<close> events published
  (the calls of \<^verbatim>\<open>emit\<close> that returned).\<close>

fun sampled :: "'p event list \<Rightarrow> string list" where
  "sampled [] = []"
| "sampled (SymbolInfoTick s r # evs) = s # sampled evs"
| "sampled (e # evs) = sampled evs"

definition tick_dict :: "string \<Rightarrow> ('p::minus) tick \<Rightarrow> 'p pydict" where
  "tick_dict symbol tick =
     [(''symbol'', PStr symbol),
      (''bid'', PFloat (bid tick)),
      (''ask'', PFloat (ask tick)),
      (''spread'', PFloat (ask tick - bid tick)),
      (''timestamp'', PInt (time tick * 1000)),
      (''volume'', PFloat (volume_real tick))]"

fun fetched :: "('p::minus) event list \<Rightarrow> (string \<times> 'p pydict) list" where
  "fetched [] = []"
| "fetched (SymbolInfoTick s (Inr (Some t)) # evs) = (s, tick_dict s t) # fetched evs"
| "fetched (e # evs) = fetched evs"

fun published :: "'p event list \<Rightarrow> 'p pydict list" where
  "published [] = []"
| "published (Emit n (PayDict d) (Inr u) # evs) = (if n = ''market_data'' then d # published evs else published evs)"
| "published (e # evs) = published evs"

definition store_all :: "(string \<times> 'p pydict) list \<Rightarrow> (string \<times> 'p pydict) list \<Rightarrow> (string \<times> 'p pydict) list" where
  "store_all m kvs = foldl (\<lambda>m kv. AList.update (fst kv) (snd kv) m) m kvs"

text \<open>The record of events is true to the outside world when replaying it from the
  world \<open>w\<close> succeeds: each recorded call, made on the world reached so far with the
  recorded arguments, gives the recorded reply and the next world. The result is the
  world after the last call.\<close>

fun replay :: "('w, 'p) env \<Rightarrow> 'w \<Rightarrow> 'p event list \<Rightarrow> 'w option" where
  "replay env w [] = Some w"
| "replay env w (Initialize r # evs) =
     (if fst (mt5_initialize env w) = r then replay env (snd (mt5_initialize env w)) evs else None)"
| "replay env w (Login n p s r # evs) =
     (if fst (mt5_login env n p s w) = r then replay env (snd (mt5_login env n p s w)) evs else None)"
| "replay env w (AccountInfo r # evs) =
     (if fst (mt5_account_info env w) = r then replay env (snd (mt5_account_info env w)) evs else None)"
| "replay env w (SymbolsGet r # evs) =
     (if fst (mt5_symbols_get env w) = r then replay env (snd (mt5_symbols_get env w)) evs else None)"
| "replay env w (PositionsGet t r # evs) =
     (if fst (mt5_positions_get env t w) = r then replay env (snd (mt5_positions_get env t w)) evs else None)"
| "replay env w (OrdersGet r # evs) =
     (if fst (mt5_orders_get env w) = r then replay env (snd (mt5_orders_get env w)) evs else None)"
| "replay env w (SymbolInfo s r # evs) =
     (if fst (mt5_symbol_info env s w) = r then replay env (snd (mt5_symbol_info env s w)) evs else None)"
| "replay env w (SymbolInfoTick s r # evs) =
     (if fst (mt5_symbol_info_tick env s w) = r then replay env (snd (mt5_symbol_info_tick env s w)) evs
      else None)"
| "replay env w (OrderSend req r # evs) =
     (if fst (mt5_order_send env req w) = r then replay env (snd (mt5_order_send env req w)) evs else None)"
| "replay env w (Shutdown r # evs) =
     (if fst (mt5_shutdown env w) = r then replay env (snd (mt5_shutdown env w)) evs else None)"
| "replay env w (Emit n p r # evs) =
     (if fst (socketio_emit env n p w) = r then replay env (snd (socketio_emit env n p w)) evs else None)"
| "replay env w (ThreadStart # evs) = replay env w evs"
| "replay env w (ThreadJoin # evs) = replay env w evs"
| "replay env w (Sleep k # evs) = replay env w evs"

section \<open>Example terminals\<close>

text \<open>A terminal where every call succeeds. Its world counts the calls made, and the
  quotes move with it: the bid is 1.1000 plus one pip for each call, the ask two pips above.\<close>

definition demo_account :: "real account" where
  "demo_account = \<lparr>acc_login = 42, acc_balance = 10000, acc_equity = 10000\<rparr>"

definition demo_long :: "real position" where
  "demo_long = \<lparr>pos_ticket = 7, pos_symbol = ''EURUSD'', pos_volume = 0.1, pos_type = POSITION_TYPE_BUY\<rparr>"

definition demo_short :: "real position" where
  "demo_short = \<lparr>pos_ticket = 8, pos_symbol = ''EURUSD'', pos_volume = 0.1, pos_type = POSITION_TYPE_SELL\<rparr>"

definition demo_pending :: "real pending_order" where
  "demo_pending = \<lparr>ord_ticket = 9, ord_symbol = ''GBPUSD'', ord_volume = 0.2, ord_type = 2\<rparr>"

definition demo_tick :: "nat \<Rightarrow> real tick" where
  "demo_tick w = \<lparr>time = int w, bid = 1.1000 + real w / 10000, ask = 1.1002 + real w / 10000,
     volume_real = 0\<rparr>"

definition demo_done :: order_result where
  "demo_done = \<lparr>retcode = 10009, res_order = 1001, res_comment = ''Request executed''\<rparr>"

definition demo_buy_request :: "real pydict" where
  "demo_buy_request =
     [(''action'', PInt 1), (''symbol'', PStr ''EURUSD''), (''volume'', PFloat 0.01),
      (''type'', PInt 0), (''price'', PFloat 1.1006), (''sl'', PNone), (''tp'', PNone),
      (''comment'', PStr ''WingZero''), (''type_time'', PInt 0), (''type_filling'', PInt 1)]"

definition demo_sell_request :: "real pydict" where
  "demo_sell_request =
     [(''action'', PInt 1), (''symbol'', PStr ''EURUSD''), (''volume'', PFloat 0.01),
      (''type'', PInt 1), (''price'', PFloat 1.1004), (''sl'', PNone), (''tp'', PNone),
      (''comment'', PStr ''WingZero''), (''type_time'', PInt 0), (''type_filling'', PInt 1)]"

definition demo_close_long_request :: "real pydict" where
  "demo_close_long_request =
     [(''action'', PInt 1), (''symbol'', PStr ''EURUSD''), (''volume'', PFloat 0.1),
      (''type'', PInt 1), (''position'', PInt 7), (''price'', PFloat 1.1004),
      (''comment'', PStr ''WingZero Close''), (''type_time'', PInt 0), (''type_filling'', PInt 1)]"

definition demo_close_short_request :: "real pydict" where
  "demo_close_short_request =
     [(''action'', PInt 1), (''symbol'', PStr ''EURUSD''), (''volume'', PFloat 0.1),
      (''type'', PInt 0), (''position'', PInt 8), (''price'', PFloat 1.1006),
      (''comment'', PStr ''WingZero Close''), (''type_time'', PInt 0), (''type_filling'', PInt 1)]"

definition demo_env :: "(nat, real) env" where
  "demo_env =
    \<lparr>mt5_initialize = (\<lambda>w. (Inr True, Suc w)),
     mt5_login = (\<lambda>n p s w. (Inr True, Suc w)),
     mt5_account_info = (\<lambda>w. (Inr (Some demo_account), Suc w)),
     mt5_symbols_get = (\<lambda>w. (Inr (Some [\<lparr>sym_name = ''EURUSD''\<rparr>, \<lparr>sym_name = ''GBPUSD''\<rparr>]), Suc w)),
     mt5_positions_get = (\<lambda>t w. (Inr (Some (if t = Some 8 then [demo_short] else [demo_long])), Suc w)),
     mt5_orders_get = (\<lambda>w. (Inr (Some [demo_pending]), Suc w)),
     mt5_symbol_info = (\<lambda>s w. (Inr (Some \<lparr>sym_name = s\<rparr>), Suc w)),
     mt5_symbol_info_tick = (\<lambda>s w. (Inr (Some (demo_tick w)), Suc w)),
     mt5_order_send = (\<lambda>req w. (Inr (Some demo_done), Suc w)),
     mt5_shutdown = (\<lambda>w. (Inr (), Suc w)),
     socketio_emit = (\<lambda>n p w. (Inr (), w)),
     py_int = (\<lambda>s. None),
     float_0_01 = 0.01\<rparr>"

text \<open>The bridge after \<^verbatim>\<open>POST /api/v1/connect\<close> without credentials on that terminal.\<close>

definition demo_connected :: "(nat, real) state" where
  "demo_connected = snd (connect_mt5 demo_env LoginNone None None (init 0))"




definition demo_shutdown_raises :: "(nat, real) env" where
  "demo_shutdown_raises = demo_env\<lparr>mt5_shutdown := (\<lambda>w. (Inl ''IPC connection lost'', Suc w))\<rparr>"

definition demo_rejecting :: "(nat, real) env" where
  "demo_rejecting = demo_env\<lparr>mt5_order_send :=
     (\<lambda>req w. (Inr (Some \<lparr>retcode = 10013, res_order = 0, res_comment = ''Invalid request''\<rparr>), Suc w))\<rparr>"

definition demo_emit_raises :: "(nat, real) env" where
  "demo_emit_raises = demo_env\<lparr>
     mt5_symbol_info_tick := (\<lambda>s w. if s = ''EURUSD'' then (Inr None, Suc w)
                                     else (Inr (Some (demo_tick w)), Suc w)),
     socketio_emit := (\<lambda>n p w. (Inl ''socket closed'', w))\<rparr>"

definition demo_gaps :: "(nat, real) env" where
  "demo_gaps = demo_env\<lparr>mt5_symbol_info_tick :=
     (\<lambda>s w. if s = ''GBPUSD'' then (Inr None, Suc w)
             else if s = ''USDJPY'' then (Inl ''timeout'', Suc w)
             else (Inr (Some (demo_tick w)), Suc w))\<rparr>"

section \<open>Shapes of the operations\<close>

text \<open>Each operation only appends to the record of events; the lemmas of this section
  give, for one run of an operation, its result together with the events it added.\<close>

lemma new_events_append: "trace st' = trace st @ evs \<Longrightarrow> new_events st st' = evs"
  by (simp add: new_events_def)

lemma sampled_append: "sampled (a @ b) = sampled a @ sampled b"
  by (induction a rule: sampled.induct) simp_all

lemma fetched_append: "fetched (a @ b) = fetched a @ fetched b"
  by (induction a rule: fetched.induct) simp_all

lemma published_append: "published (a @ b) = published a @ published b"
  by (induction a rule: published.induct) simp_all

lemma place_order_shape:
  "\<exists>d st' evs. place_order env symbol ot v p sl tp c st = (d, st') \<and> trace st' = trace st @ evs
     \<and> (''error'' \<in> set (map fst d) \<longleftrightarrow> \<not> deal_done evs)
     \<and> (deal_done evs \<longrightarrow> map fst d = [''success'', ''order_id'', ''retcode'', ''comment''])"
  by (auto simp: place_order_def call_def Let_def err_def deal_done_def
      split: prod.splits sum.splits option.splits)

lemma close_position_shape:
  "\<exists>d st' evs. close_position env ticket st = (d, st') \<and> trace st' = trace st @ evs
     \<and> (''error'' \<in> set (map fst d) \<longleftrightarrow> \<not> deal_done evs)
     \<and> (deal_done evs \<longrightarrow> map fst d = [''success'', ''order_id'', ''retcode''])"
  by (auto simp: close_position_def call_def Let_def err_def deal_done_def
      split: prod.splits sum.splits option.splits list.splits)




lemma get_market_data_shape:
  "connected st \<Longrightarrow> \<exists>d st' r. get_market_data env s st = (d, st') \<and> trace st' = trace st @ [SymbolInfoTick s r]
      \<and> connected st' \<and> market_data st' = market_data st
      \<and> (case d of None \<Rightarrow> fetched [SymbolInfoTick s r] = [] | Some x \<Rightarrow> fetched [SymbolInfoTick s r] = [(s, x)])"
  by (auto simp: get_market_data_def call_def tick_dict_def split: prod.splits sum.splits option.splits)

lemma get_positions_shape:
  "\<exists>ps st' evs. get_positions env st = (ps, st') \<and> trace st' = trace st @ evs
     \<and> market_data st' = market_data st \<and> sampled evs = [] \<and> fetched evs = [] \<and> published evs = []"
  by (auto simp: get_positions_def call_def split: prod.splits sum.splits option.splits list.splits)

lemma get_account_info_shape:
  "\<exists>a st' evs. get_account_info env st = (a, st') \<and> trace st' = trace st @ evs
     \<and> market_data st' = market_data st \<and> sampled evs = [] \<and> fetched evs = [] \<and> published evs = []"
  by (auto simp: get_account_info_def call_def split: prod.splits sum.splits option.splits list.splits)

lemma emit_shape:
  "n \<noteq> ''market_data'' \<longrightarrow> (\<exists>r st' evs. call (socketio_emit env n p) (Emit n p) st = (r, st') \<and> trace st' = trace st @ evs
     \<and> market_data st' = market_data st \<and> sampled evs = [] \<and> fetched evs = [] \<and> published evs = [])"
  by (cases p; cases "fst (socketio_emit env n p (world st))") (auto simp: call_def split: prod.splits)

text \<open>The \<^verbatim>\<open>for\<close> loop, when no \<^verbatim>\<open>emit\<close> raises: by induction on the list of symbols,
  with the state generalised.\<close>

lemma stream_symbols_shape:
  assumes emit: "\<forall>n p w. fst (socketio_emit env n p w) = Inr ()"
  shows "connected st \<Longrightarrow> \<exists>st' evs. stream_symbols env syms st = (None, st') \<and> trace st' = trace st @ evs
      \<and> connected st' \<and> sampled evs = syms \<and> published evs = map snd (fetched evs)
      \<and> market_data st' = store_all (market_data st) (fetched evs)"
proof (induction syms arbitrary: st)
  case Nil
  then show ?case by (simp add: store_all_def)
next
  case (Cons s syms)
  obtain d st1 r where g: "get_market_data env s st = (d, st1)" "trace st1 = trace st @ [SymbolInfoTick s r]"
      "connected st1" "market_data st1 = market_data st"
      "case d of None \<Rightarrow> fetched [SymbolInfoTick s r] = [] | Some x \<Rightarrow> fetched [SymbolInfoTick s r] = [(s, x)]"
    using get_market_data_shape [OF Cons.prems, of env s] by (elim exE conjE) (rule that)
  show ?case
  proof (cases d)
    case None
    obtain st' evs where r: "stream_symbols env syms st1 = (None, st')" "trace st' = trace st1 @ evs"
      "connected st'" "sampled evs = syms" "published evs = map snd (fetched evs)"
      "market_data st' = store_all (market_data st1) (fetched evs)"
      using Cons.IH [OF g(3)] by (elim exE conjE) (rule that)
    have "stream_symbols env (s # syms) st = (None, st')" using g None r by simp
    moreover have "trace st' = trace st @ (SymbolInfoTick s r # evs)" using g r by simp
    moreover have "fetched (SymbolInfoTick s r # evs) = fetched evs"
      using g(5) None fetched_append [of "[SymbolInfoTick s r]" evs] by simp
    ultimately show ?thesis using g None r
      by (intro exI conjI) (assumption, assumption, simp_all add: store_all_def)
  next
    case (Some x)
    define st2 where "st2 = st1\<lparr>market_data := AList.update s x (market_data st1)\<rparr>"
    define e where "e = Emit ''market_data'' (PayDict x) (Inr ())"
    define st3 where "st3 = st2\<lparr>world := snd (socketio_emit env ''market_data'' (PayDict x) (world st2)),
        trace := trace st2 @ [e]\<rparr>"
    have c: "call (socketio_emit env ''market_data'' (PayDict x)) (Emit ''market_data'' (PayDict x)) st2 = (Inr (), st3)"
      using emit [rule_format, of "''market_data''" "PayDict x" "world st2"]
      by (cases "socketio_emit env ''market_data'' (PayDict x) (world st2)") (simp add: call_def st3_def e_def)
    have c3: "connected st3" using g by (simp add: st3_def st2_def)
    obtain st' evs where r: "stream_symbols env syms st3 = (None, st')" "trace st' = trace st3 @ evs"
      "connected st'" "sampled evs = syms" "published evs = map snd (fetched evs)"
      "market_data st' = store_all (market_data st3) (fetched evs)"
      using Cons.IH [OF c3] by (elim exE conjE) (rule that)
    have "stream_symbols env (s # syms) st = (None, st')" using g Some r c by (simp add: st2_def)
    moreover have "trace st' = trace st @ (SymbolInfoTick s r # e # evs)" using g r by (simp add: st3_def st2_def)
    moreover have "fetched (SymbolInfoTick s r # e # evs) = (s, x) # fetched evs"
      using g(5) Some fetched_append [of "[SymbolInfoTick s r]" "e # evs"] by (simp add: e_def)
    ultimately show ?thesis using g Some r
      by (intro exI conjI) (assumption, assumption, simp_all add: store_all_def st3_def st2_def e_def)
  qed
qed

lemma worker_iteration_shape:
  assumes emit: "\<forall>n p w. fst (socketio_emit env n p w) = Inr ()" and conn: "connected st"
  shows "\<exists>evs. trace (worker_iteration env now st) = trace st @ evs
      \<and> sampled evs = major_pairs \<and> published evs = map snd (fetched evs)
      \<and> market_data (worker_iteration env now st) = store_all (market_data st) (fetched evs)"
proof -
  obtain st1 evs where r: "stream_symbols env major_pairs st = (None, st1)" "trace st1 = trace st @ evs"
      "sampled evs = major_pairs" "published evs = map snd (fetched evs)"
      "market_data st1 = store_all (market_data st) (fetched evs)"
    using stream_symbols_shape [OF emit conn, of major_pairs] by (elim exE conjE) (rule that)
  show ?thesis
  proof (cases "now mod 5 = 0")
    case False
    with r have "worker_iteration env now st = log_event (Sleep 1) st1"
      by (simp add: worker_iteration_def)
    moreover have "trace (log_event (Sleep 1) st1) = trace st @ (evs @ [Sleep 1])"
      using r by (simp add: log_event_def)
    ultimately show ?thesis using r
      by (intro exI conjI) (simp, simp_all add: sampled_append fetched_append published_append log_event_def)
  next
    case True
    obtain ps st2 e2 where p: "get_positions env st1 = (ps, st2)" "trace st2 = trace st1 @ e2"
      "market_data st2 = market_data st1" "sampled e2 = []" "fetched e2 = []" "published e2 = []"
      using get_positions_shape [of env st1] by (elim exE conjE) (rule that)
    obtain a st3 e3 where q: "get_account_info env st2 = (a, st3)" "trace st3 = trace st2 @ e3"
      "market_data st3 = market_data st2" "sampled e3 = []" "fetched e3 = []" "published e3 = []"
      using get_account_info_shape [of env st2] by (elim exE conjE) (rule that)
    obtain r4 st4 e4 where u: "call (socketio_emit env ''positions_update'' (PayPositions ps))
          (Emit ''positions_update'' (PayPositions ps)) st3 = (r4, st4)" "trace st4 = trace st3 @ e4"
      "market_data st4 = market_data st3" "sampled e4 = []" "fetched e4 = []" "published e4 = []"
      using emit_shape [of "''positions_update''" env "PayPositions ps" st3]
      by (elim impE exE conjE, simp) (rule that)
    obtain r5 st5 e5 where v: "call (socketio_emit env ''account_update'' (PayAccount a))
          (Emit ''account_update'' (PayAccount a)) st4 = (r5, st5)" "trace st5 = trace st4 @ e5"
      "market_data st5 = market_data st4" "sampled e5 = []" "fetched e5 = []" "published e5 = []"
      using emit_shape [of "''account_update''" env "PayAccount a" st4]
      by (elim impE exE conjE, simp) (rule that)
    have "\<exists>k sx. worker_iteration env now st = log_event (Sleep k) sx \<and> (sx = st4 \<or> sx = st5)"
      using True r p q u v by (auto simp: worker_iteration_def split: sum.splits)
    then obtain k sx where w: "worker_iteration env now st = log_event (Sleep k) sx" "sx = st4 \<or> sx = st5"
      by blast
    from w(2) have "\<exists>ex. trace sx = trace st @ (evs @ ex) \<and> market_data sx = market_data st1
        \<and> sampled ex = [] \<and> fetched ex = [] \<and> published ex = []"
    proof
      assume "sx = st4"
      then show ?thesis using r p q u
        by (intro exI [of _ "e2 @ e3 @ e4"]) (simp add: sampled_append fetched_append published_append)
    next
      assume "sx = st5"
      then show ?thesis using r p q u v
        by (intro exI [of _ "e2 @ e3 @ e4 @ e5"]) (simp add: sampled_append fetched_append published_append)
    qed
    then obtain ex where x: "trace sx = trace st @ (evs @ ex)" "market_data sx = market_data st1"
        "sampled ex = []" "fetched ex = []" "published ex = []"
      by blast
    have "trace (worker_iteration env now st) = trace st @ (evs @ ex @ [Sleep k])"
      using w x by (simp add: log_event_def)
    then show ?thesis using r x w
      by (intro exI conjI) (assumption, simp_all add: sampled_append fetched_append published_append log_event_def)
  qed
qed

section \<open>Runs and the outside world\<close>

text \<open>The lemmas of this section relate a run of an operation to the functions of the
  terminal: the record of events replays on the world the run started from, and the
  request submitted is the argument of \<^verbatim>\<open>order_send\<close> on the world the run had reached.\<close>

lemma replay_append:
  "replay env w (a @ b) = (case replay env w a of None \<Rightarrow> None | Some w1 \<Rightarrow> replay env w1 b)"
  by (induction env w a rule: replay.induct) simp_all

lemma place_order_run:
  "\<exists>d st' evs. place_order env symbol ot v p sl tp c st = (d, st') \<and> trace st' = trace st @ evs
     \<and> replay env (world st) evs = Some (world st')
     \<and> (''error'' \<notin> set (map fst d) \<longrightarrow>
          (\<exists>req w result. mt5_order_send env req w = (Inr (Some result), world st')
             \<and> retcode result = TRADE_RETCODE_DONE
             \<and> last evs = OrderSend req (Inr (Some result))
             \<and> d = [(''success'', PBool True), (''order_id'', PInt (res_order result)),
                    (''retcode'', PInt (retcode result)), (''comment'', PStr (res_comment result))]))"
  by (auto simp: place_order_def call_def Let_def err_def
      split: prod.splits sum.splits option.splits)

lemma close_position_run:
  "\<exists>d st' evs. close_position env ticket st = (d, st') \<and> trace st' = trace st @ evs
     \<and> replay env (world st) evs = Some (world st')
     \<and> (''error'' \<notin> set (map fst d) \<longrightarrow>
          (\<exists>req w result. mt5_order_send env req w = (Inr (Some result), world st')
             \<and> retcode result = TRADE_RETCODE_DONE
             \<and> last evs = OrderSend req (Inr (Some result))
             \<and> d = [(''success'', PBool True), (''order_id'', PInt (res_order result)),
                    (''retcode'', PInt (retcode result))]))"
  by (auto simp: close_position_def call_def Let_def err_def
      split: prod.splits sum.splits option.splits list.splits)

lemma place_order_submits:
  assumes "connected st"
    and "mt5_symbol_info env symbol (world st) = (Inr (Some info), w1)"
    and "mt5_symbol_info_tick env symbol w1 = (Inr (Some tick), w2)"
  shows "\<exists>req. map_of req ''symbol'' = Some (PStr symbol)
       \<and> map_of req ''volume'' = Some (PFloat volume)
       \<and> map_of req ''type'' = Some (PInt order_type)
       \<and> (order_type = ORDER_TYPE_BUY \<longrightarrow> map_of req ''price'' = Some (PFloat (ask tick)))
       \<and> (order_type = ORDER_TYPE_SELL \<longrightarrow> map_of req ''price'' = Some (PFloat (bid tick)))
       \<and> snd (place_order env symbol order_type volume None sl tp comment st)
           = st\<lparr>world := snd (mt5_order_send env req w2),
                 trace := trace st @ [SymbolInfo symbol (Inr (Some info)),
                                      SymbolInfoTick symbol (Inr (Some tick)),
                                      OrderSend req (fst (mt5_order_send env req w2))]\<rparr>"
proof -
  define req where "req =
     [(''action'', PInt TRADE_ACTION_DEAL), (''symbol'', PStr symbol), (''volume'', PFloat volume),
      (''type'', PInt order_type),
      (''price'', PFloat (if order_type = ORDER_TYPE_BUY then ask tick else bid tick)),
      (''sl'', opt_float sl), (''tp'', opt_float tp), (''comment'', PStr comment),
      (''type_time'', PInt ORDER_TIME_GTC), (''type_filling'', PInt ORDER_FILLING_IOC)]"
  obtain r w3 where s: "mt5_order_send env req w2 = (r, w3)"
    by (cases "mt5_order_send env req w2")
  have "snd (place_order env symbol order_type volume None sl tp comment st)
           = st\<lparr>world := w3,
                 trace := trace st @ [SymbolInfo symbol (Inr (Some info)),
                                      SymbolInfoTick symbol (Inr (Some tick)), OrderSend req r]\<rparr>"
    using assms s [unfolded req_def]
    by (simp add: place_order_def call_def Let_def req_def split: sum.splits option.splits)
  then have e: "snd (place_order env symbol order_type volume None sl tp comment st)
           = st\<lparr>world := snd (mt5_order_send env req w2),
                 trace := trace st @ [SymbolInfo symbol (Inr (Some info)),
                                      SymbolInfoTick symbol (Inr (Some tick)),
                                      OrderSend req (fst (mt5_order_send env req w2))]\<rparr>"
    by (simp add: s)
  have "map_of req ''symbol'' = Some (PStr symbol)" "map_of req ''volume'' = Some (PFloat volume)"
    "map_of req ''type'' = Some (PInt order_type)"
    "order_type = ORDER_TYPE_BUY \<longrightarrow> map_of req ''price'' = Some (PFloat (ask tick))"
    "order_type = ORDER_TYPE_SELL \<longrightarrow> map_of req ''price'' = Some (PFloat (bid tick))"
    by (simp_all add: req_def ORDER_TYPE_BUY_def ORDER_TYPE_SELL_def)
  with e show ?thesis by blast
qed

lemma close_position_submits:
  assumes "connected st"
    and "mt5_positions_get env (Some T) (world st) = (Inr (Some (position # rest)), w1)"
    and "mt5_symbol_info_tick env (pos_symbol position) w1 = (Inr (Some tick), w2)"
  shows "\<exists>req. map_of req ''symbol'' = Some (PStr (pos_symbol position))
       \<and> map_of req ''volume'' = Some (PFloat (pos_volume position))
       \<and> map_of req ''position'' = Some (PInt T)
       \<and> (pos_type position = POSITION_TYPE_BUY \<longrightarrow>
            map_of req ''type'' = Some (PInt ORDER_TYPE_SELL) \<and> map_of req ''price'' = Some (PFloat (bid tick)))
       \<and> (pos_type position = POSITION_TYPE_SELL \<longrightarrow>
            map_of req ''type'' = Some (PInt ORDER_TYPE_BUY) \<and> map_of req ''price'' = Some (PFloat (ask tick)))
       \<and> snd (close_position env T st)
           = st\<lparr>world := snd (mt5_order_send env req w2),
                 trace := trace st @ [PositionsGet (Some T) (Inr (Some (position # rest))),
                                      SymbolInfoTick (pos_symbol position) (Inr (Some tick)),
                                      OrderSend req (fst (mt5_order_send env req w2))]\<rparr>"
proof -
  define close_type where "close_type =
     (if pos_type position = POSITION_TYPE_BUY then ORDER_TYPE_SELL else ORDER_TYPE_BUY)"
  define req where "req =
     [(''action'', PInt TRADE_ACTION_DEAL), (''symbol'', PStr (pos_symbol position)),
      (''volume'', PFloat (pos_volume position)), (''type'', PInt close_type),
      (''position'', PInt T),
      (''price'', PFloat (if close_type = ORDER_TYPE_SELL then bid tick else ask tick)),
      (''comment'', PStr ''WingZero Close''),
      (''type_time'', PInt ORDER_TIME_GTC), (''type_filling'', PInt ORDER_FILLING_IOC)]"
  obtain r w3 where s: "mt5_order_send env req w2 = (r, w3)"
    by (cases "mt5_order_send env req w2")
  have "snd (close_position env T st)
           = st\<lparr>world := w3,
                 trace := trace st @ [PositionsGet (Some T) (Inr (Some (position # rest))),
                                      SymbolInfoTick (pos_symbol position) (Inr (Some tick)),
                                      OrderSend req r]\<rparr>"
    using assms s [unfolded req_def close_type_def]
    by (simp add: close_position_def call_def Let_def req_def close_type_def split: sum.splits option.splits)
  then have e: "snd (close_position env T st)
           = st\<lparr>world := snd (mt5_order_send env req w2),
                 trace := trace st @ [PositionsGet (Some T) (Inr (Some (position # rest))),
                                      SymbolInfoTick (pos_symbol position) (Inr (Some tick)),
                                      OrderSend req (fst (mt5_order_send env req w2))]\<rparr>"
    by (simp add: s)
  have "map_of req ''symbol'' = Some (PStr (pos_symbol position))"
    "map_of req ''volume'' = Some (PFloat (pos_volume position))"
    "map_of req ''position'' = Some (PInt T)"
    "pos_type position = POSITION_TYPE_BUY \<longrightarrow>
            map_of req ''type'' = Some (PInt ORDER_TYPE_SELL) \<and> map_of req ''price'' = Some (PFloat (bid tick))"
    "pos_type position = POSITION_TYPE_SELL \<longrightarrow>
            map_of req ''type'' = Some (PInt ORDER_TYPE_BUY) \<and> map_of req ''price'' = Some (PFloat (ask tick))"
    by (simp_all add: req_def close_type_def ORDER_TYPE_BUY_def ORDER_TYPE_SELL_def
        POSITION_TYPE_BUY_def POSITION_TYPE_SELL_def)
  with e show ?thesis by blast
qed

lemma fetched_failed:
  "(\<forall>t. r \<noteq> Inr (Some t)) \<Longrightarrow> fetched (SymbolInfoTick s r # evs) = fetched evs"
proof (cases r)
  case (Inl e)
  then show ?thesis by simp
next
  case (Inr x)
  assume "\<forall>t. r \<noteq> Inr (Some t)"
  with Inr show ?thesis by (cases x) auto
qed

lemma get_market_data_run:
  "connected st \<Longrightarrow> \<exists>d st'. get_market_data env s st = (d, st')
      \<and> trace st' = trace st @ [SymbolInfoTick s (fst (mt5_symbol_info_tick env s (world st)))]
      \<and> world st' = snd (mt5_symbol_info_tick env s (world st))
      \<and> connected st' \<and> market_data st' = market_data st
      \<and> (\<forall>t. fst (mt5_symbol_info_tick env s (world st)) = Inr (Some t) \<longrightarrow> d = Some (tick_dict s t))
      \<and> ((\<forall>t. fst (mt5_symbol_info_tick env s (world st)) \<noteq> Inr (Some t)) \<longrightarrow> d = None)"
  by (auto simp: get_market_data_def call_def tick_dict_def split: prod.splits sum.splits option.splits)

lemma stream_symbols_append:
  "stream_symbols env (pre @ post) st =
     (case stream_symbols env pre st of (None, st1) \<Rightarrow> stream_symbols env post st1
                                      | (Some e, st1) \<Rightarrow> (Some e, st1))"
  by (induction pre arbitrary: st) (auto split: prod.splits option.splits sum.splits)


lemma stream_symbols_run:
  "connected st \<Longrightarrow> \<exists>res st' evs. stream_symbols env syms st = (res, st') \<and> trace st' = trace st @ evs
     \<and> connected st' \<and> replay env (world st) evs = Some (world st')
     \<and> market_data st' = store_all (market_data st) (fetched evs)
     \<and> take (length (sampled evs)) syms = sampled evs
     \<and> (res = None \<longrightarrow> sampled evs = syms \<and> published evs = map snd (fetched evs))
     \<and> (\<forall>e. res = Some e \<longrightarrow>
           (\<exists>s t. evs \<noteq> [] \<and> last evs = Emit ''market_data'' (PayDict (tick_dict s t)) (Inl e)
               \<and> fetched evs \<noteq> [] \<and> last (fetched evs) = (s, tick_dict s t)
               \<and> sampled evs \<noteq> [] \<and> last (sampled evs) = s
               \<and> published evs = butlast (map snd (fetched evs))))"
proof (induction syms arbitrary: st)
  case Nil
  then show ?case by (simp add: store_all_def)
next
  case (Cons s syms)
  define r where "r = fst (mt5_symbol_info_tick env s (world st))"
  define T :: "'b event" where "T = SymbolInfoTick s r"
  have "\<exists>d st1. get_market_data env s st = (d, st1) \<and> trace st1 = trace st @ [T]
      \<and> world st1 = snd (mt5_symbol_info_tick env s (world st))
      \<and> connected st1 \<and> market_data st1 = market_data st
      \<and> (\<forall>t. r = Inr (Some t) \<longrightarrow> d = Some (tick_dict s t))
      \<and> ((\<forall>t. r \<noteq> Inr (Some t)) \<longrightarrow> d = None)"
    using get_market_data_run [OF Cons.prems, of env s] by (simp add: r_def T_def)
  then obtain d st1 where g: "get_market_data env s st = (d, st1)" "trace st1 = trace st @ [T]"
      "world st1 = snd (mt5_symbol_info_tick env s (world st))"
      "connected st1" "market_data st1 = market_data st"
      "\<forall>t. r = Inr (Some t) \<longrightarrow> d = Some (tick_dict s t)"
      "(\<forall>t. r \<noteq> Inr (Some t)) \<longrightarrow> d = None"
    by (elim exE conjE) (rule that)
  have rp: "\<And>evs. replay env (world st) (T # evs) = replay env (world st1) evs"
    by (simp add: T_def r_def g(3))
  show ?case
  proof (cases "\<exists>t. r = Inr (Some t)")
    case False
    then have dn: "d = None" using g(7) by simp
    have ff: "\<And>evs. fetched (T # evs) = fetched evs"
      using False by (simp add: T_def fetched_failed)
    obtain res st' evs where i: "stream_symbols env syms st1 = (res, st')" "trace st' = trace st1 @ evs"
      "connected st'" "replay env (world st1) evs = Some (world st')"
      "market_data st' = store_all (market_data st1) (fetched evs)"
      "take (length (sampled evs)) syms = sampled evs"
      "res = None \<longrightarrow> sampled evs = syms \<and> published evs = map snd (fetched evs)"
      "\<forall>e. res = Some e \<longrightarrow>
           (\<exists>s t. evs \<noteq> [] \<and> last evs = Emit ''market_data'' (PayDict (tick_dict s t)) (Inl e)
               \<and> fetched evs \<noteq> [] \<and> last (fetched evs) = (s, tick_dict s t)
               \<and> sampled evs \<noteq> [] \<and> last (sampled evs) = s
               \<and> published evs = butlast (map snd (fetched evs)))"
      using Cons.IH [OF g(4)] by (elim exE conjE) (rule that)
    have 1: "stream_symbols env (s # syms) st = (res, st')" using g(1) dn i(1) by simp
    have 2: "trace st' = trace st @ (T # evs)" using g(2) i(2) by simp
    have 3: "replay env (world st) (T # evs) = Some (world st')" using rp i(4) by simp
    have 4: "market_data st' = store_all (market_data st) (fetched (T # evs))"
      using i(5) g(5) ff by simp
    have 5: "take (length (sampled (T # evs))) (s # syms) = sampled (T # evs)" using i(6) by (simp add: T_def)
    have 6: "res = None \<longrightarrow> sampled (T # evs) = s # syms \<and> published (T # evs) = map snd (fetched (T # evs))"
      using i(7) ff by (simp add: T_def)
    have 7: "\<forall>e. res = Some e \<longrightarrow>
           (\<exists>s t. T # evs \<noteq> [] \<and> last (T # evs) = Emit ''market_data'' (PayDict (tick_dict s t)) (Inl e)
               \<and> fetched (T # evs) \<noteq> [] \<and> last (fetched (T # evs)) = (s, tick_dict s t)
               \<and> sampled (T # evs) \<noteq> [] \<and> last (sampled (T # evs)) = s
               \<and> published (T # evs) = butlast (map snd (fetched (T # evs))))"
      using i(8) ff by (auto simp: T_def)
    from 1 2 i(3) 3 4 5 6 7 show ?thesis by blast
  next
    case True
    then obtain t where t: "r = Inr (Some t)" by blast
    define x where "x = tick_dict s t"
    have dx: "d = Some x" using g(6) t by (simp add: x_def)
    have ft: "\<And>evs. fetched (T # evs) = (s, x) # fetched evs"
      by (simp add: T_def t x_def)
    define st2 where "st2 = st1\<lparr>market_data := AList.update s x (market_data st1)\<rparr>"
    define r2 where "r2 = fst (socketio_emit env ''market_data'' (PayDict x) (world st2))"
    define E :: "'b event" where "E = Emit ''market_data'' (PayDict x) r2"
    define st3 where "st3 = st2\<lparr>world := snd (socketio_emit env ''market_data'' (PayDict x) (world st2)),
        trace := trace st2 @ [E]\<rparr>"
    have c: "call (socketio_emit env ''market_data'' (PayDict x)) (Emit ''market_data'' (PayDict x)) st2 = (r2, st3)"
      by (cases "socketio_emit env ''market_data'' (PayDict x) (world st2)")
         (simp add: call_def st3_def E_def r2_def)
    have w2: "world st2 = world st1" by (simp add: st2_def)
    have rp2: "\<And>evs. replay env (world st) (T # E # evs) = replay env (world st3) evs"
      using rp by (simp add: E_def r2_def st3_def w2)
    have md: "market_data st3 = AList.update s x (market_data st)"
      using g(5) by (simp add: st3_def st2_def)
    have tr: "trace st3 = trace st @ [T, E]" using g(2) by (simp add: st3_def st2_def)
    show ?thesis
    proof (cases r2)
      case (Inl e)
      have 1: "stream_symbols env (s # syms) st = (Some e, st3)"
        using g(1) dx c Inl by (simp add: st2_def)
      have 3: "replay env (world st) [T, E] = Some (world st3)" using rp2 [of "[]"] by simp
      have 4: "market_data st3 = store_all (market_data st) (fetched [T, E])"
        using md ft by (simp add: store_all_def E_def)
      have 5: "take (length (sampled [T, E])) (s # syms) = sampled [T, E]" by (simp add: T_def E_def)
      have 7: "\<forall>e'. Some e = Some e' \<longrightarrow>
           (\<exists>s t. [T, E] \<noteq> [] \<and> last [T, E] = Emit ''market_data'' (PayDict (tick_dict s t)) (Inl e')
               \<and> fetched [T, E] \<noteq> [] \<and> last (fetched [T, E]) = (s, tick_dict s t)
               \<and> sampled [T, E] \<noteq> [] \<and> last (sampled [T, E]) = s
               \<and> published [T, E] = butlast (map snd (fetched [T, E])))"
        using Inl ft by (auto simp: T_def E_def x_def)
      have c3: "connected st3" using g(4) by (simp add: st3_def st2_def)
      from 1 tr c3 3 4 5 7 show ?thesis
        by (intro exI [of _ "Some e"] exI [of _ st3] exI [of _ "[T, E]"]) simp
    next
      case (Inr u)
      have c3: "connected st3" using g(4) by (simp add: st3_def st2_def)
      have fe: "\<And>evs. fetched (T # E # evs) = (s, x) # fetched evs"
        using ft by (simp add: E_def)
      have pe: "\<And>evs. published (T # E # evs) = x # published evs"
        using Inr by (simp add: T_def E_def)
      have se: "\<And>evs. sampled (T # E # evs) = s # sampled evs"
        by (simp add: T_def E_def)
      obtain res st' evs where i: "stream_symbols env syms st3 = (res, st')" "trace st' = trace st3 @ evs"
        "connected st'" "replay env (world st3) evs = Some (world st')"
        "market_data st' = store_all (market_data st3) (fetched evs)"
        "take (length (sampled evs)) syms = sampled evs"
        "res = None \<longrightarrow> sampled evs = syms \<and> published evs = map snd (fetched evs)"
        "\<forall>e. res = Some e \<longrightarrow>
           (\<exists>s t. evs \<noteq> [] \<and> last evs = Emit ''market_data'' (PayDict (tick_dict s t)) (Inl e)
               \<and> fetched evs \<noteq> [] \<and> last (fetched evs) = (s, tick_dict s t)
               \<and> sampled evs \<noteq> [] \<and> last (sampled evs) = s
               \<and> published evs = butlast (map snd (fetched evs)))"
        using Cons.IH [OF c3] by (elim exE conjE) (rule that)
      have 1: "stream_symbols env (s # syms) st = (res, st')"
        using g(1) dx c Inr i(1) by (simp add: st2_def)
      have 2: "trace st' = trace st @ (T # E # evs)" using tr i(2) by simp
      have 3: "replay env (world st) (T # E # evs) = Some (world st')" using rp2 i(4) by simp
      have 4: "market_data st' = store_all (market_data st) (fetched (T # E # evs))"
        using i(5) md fe by (simp add: store_all_def)
      have 5: "take (length (sampled (T # E # evs))) (s # syms) = sampled (T # E # evs)" using i(6) se by simp
      have 6: "res = None \<longrightarrow> sampled (T # E # evs) = s # syms
            \<and> published (T # E # evs) = map snd (fetched (T # E # evs))"
        using i(7) fe pe se by simp
      have 7: "\<forall>e. res = Some e \<longrightarrow>
           (\<exists>s t. T # E # evs \<noteq> [] \<and> last (T # E # evs) = Emit ''market_data'' (PayDict (tick_dict s t)) (Inl e)
               \<and> fetched (T # E # evs) \<noteq> [] \<and> last (fetched (T # E # evs)) = (s, tick_dict s t)
               \<and> sampled (T # E # evs) \<noteq> [] \<and> last (sampled (T # E # evs)) = s
               \<and> published (T # E # evs) = butlast (map snd (fetched (T # E # evs))))"
        using i(8) by (auto simp: fe pe se)
      from 1 2 i(3) 3 4 5 6 7 show ?thesis by blast
    qed
  qed
qed

lemma get_positions_run:
  "\<exists>ps st' evs. get_positions env st = (ps, st') \<and> trace st' = trace st @ evs
     \<and> replay env (world st) evs = Some (world st')
     \<and> market_data st' = market_data st \<and> sampled evs = [] \<and> fetched evs = [] \<and> published evs = []"
  by (auto simp: get_positions_def call_def split: prod.splits sum.splits option.splits list.splits)

lemma get_account_info_run:
  "\<exists>a st' evs. get_account_info env st = (a, st') \<and> trace st' = trace st @ evs
     \<and> replay env (world st) evs = Some (world st')
     \<and> market_data st' = market_data st \<and> sampled evs = [] \<and> fetched evs = [] \<and> published evs = []"
  by (auto simp: get_account_info_def call_def split: prod.splits sum.splits option.splits list.splits)

lemma emit_run:
  "n \<noteq> ''market_data'' \<longrightarrow> (\<exists>r st' evs. call (socketio_emit env n p) (Emit n p) st = (r, st') \<and> trace st' = trace st @ evs
     \<and> replay env (world st) evs = Some (world st')
     \<and> market_data st' = market_data st \<and> sampled evs = [] \<and> fetched evs = [] \<and> published evs = [])"
  by (cases p; cases "fst (socketio_emit env n p (world st))") (auto simp: call_def split: prod.splits)

text \<open>What comes after the \<^verbatim>\<open>for\<close> loop in an iteration: the refresh of every fifth second
  and the sleep. It asks for no tick and publishes no market data.\<close>

lemma worker_iteration_tail:
  assumes "stream_symbols env major_pairs st = (res, st1)"
  shows "\<exists>ex. trace (worker_iteration env now st) = trace st1 @ ex
      \<and> replay env (world st1) ex = Some (world (worker_iteration env now st))
      \<and> market_data (worker_iteration env now st) = market_data st1
      \<and> sampled ex = [] \<and> fetched ex = [] \<and> published ex = []"
proof (cases res)
  case (Some e)
  with assms have "worker_iteration env now st = log_event (Sleep 5) st1"
    by (simp add: worker_iteration_def)
  then show ?thesis
    by (intro exI [of _ "[Sleep 5]"]) (simp add: log_event_def)
next
  case None
  show ?thesis
  proof (cases "now mod 5 = 0")
    case False
    with None assms have "worker_iteration env now st = log_event (Sleep 1) st1"
      by (simp add: worker_iteration_def)
    then show ?thesis
      by (intro exI [of _ "[Sleep 1]"]) (simp add: log_event_def)
  next
    case True
    obtain ps st2 e2 where p: "get_positions env st1 = (ps, st2)" "trace st2 = trace st1 @ e2"
      "replay env (world st1) e2 = Some (world st2)"
      "market_data st2 = market_data st1" "sampled e2 = []" "fetched e2 = []" "published e2 = []"
      using get_positions_run [of env st1] by (elim exE conjE) (rule that)
    obtain a st3 e3 where q: "get_account_info env st2 = (a, st3)" "trace st3 = trace st2 @ e3"
      "replay env (world st2) e3 = Some (world st3)"
      "market_data st3 = market_data st2" "sampled e3 = []" "fetched e3 = []" "published e3 = []"
      using get_account_info_run [of env st2] by (elim exE conjE) (rule that)
    obtain r4 st4 e4 where u: "call (socketio_emit env ''positions_update'' (PayPositions ps))
          (Emit ''positions_update'' (PayPositions ps)) st3 = (r4, st4)" "trace st4 = trace st3 @ e4"
      "replay env (world st3) e4 = Some (world st4)"
      "market_data st4 = market_data st3" "sampled e4 = []" "fetched e4 = []" "published e4 = []"
      using emit_run [of "''positions_update''" env "PayPositions ps" st3]
      by (elim impE exE conjE, simp) (rule that)
    obtain r5 st5 e5 where v: "call (socketio_emit env ''account_update'' (PayAccount a))
          (Emit ''account_update'' (PayAccount a)) st4 = (r5, st5)" "trace st5 = trace st4 @ e5"
      "replay env (world st4) e5 = Some (world st5)"
      "market_data st5 = market_data st4" "sampled e5 = []" "fetched e5 = []" "published e5 = []"
      using emit_run [of "''account_update''" env "PayAccount a" st4]
      by (elim impE exE conjE, simp) (rule that)
    have "\<exists>k sx. worker_iteration env now st = log_event (Sleep k) sx \<and> (sx = st4 \<or> sx = st5)"
      using True None assms p q u v by (auto simp: worker_iteration_def split: sum.splits)
    then obtain k sx where w: "worker_iteration env now st = log_event (Sleep k) sx" "sx = st4 \<or> sx = st5"
      by blast
    from w(2) have "\<exists>ex. trace sx = trace st1 @ ex \<and> replay env (world st1) ex = Some (world sx)
        \<and> market_data sx = market_data st1
        \<and> sampled ex = [] \<and> fetched ex = [] \<and> published ex = []"
    proof
      assume "sx = st4"
      then show ?thesis using p q u
        by (intro exI [of _ "e2 @ e3 @ e4"])
           (simp add: sampled_append fetched_append published_append replay_append)
    next
      assume "sx = st5"
      then show ?thesis using p q u v
        by (intro exI [of _ "e2 @ e3 @ e4 @ e5"])
           (simp add: sampled_append fetched_append published_append replay_append)
    qed
    then obtain ex where x: "trace sx = trace st1 @ ex" "replay env (world st1) ex = Some (world sx)"
        "market_data sx = market_data st1"
        "sampled ex = []" "fetched ex = []" "published ex = []"
      by (elim exE conjE) (rule that)
    show ?thesis using w(1) x
      by (intro exI [of _ "ex @ [Sleep k]"])
         (simp add: sampled_append fetched_append published_append replay_append log_event_def)
  qed
qed

lemma worker_iteration_run:
  assumes "connected st"
  shows "\<exists>evs. trace (worker_iteration env now st) = trace st @ evs
      \<and> replay env (world st) evs = Some (world (worker_iteration env now st))
      \<and> market_data (worker_iteration env now st) = store_all (market_data st) (fetched evs)
      \<and> take (length (sampled evs)) major_pairs = sampled evs
      \<and> ((sampled evs = major_pairs \<and> published evs = map snd (fetched evs))
          \<or> (\<exists>s t e. Emit ''market_data'' (PayDict (tick_dict s t)) (Inl e) \<in> set evs
                \<and> fetched evs \<noteq> [] \<and> last (fetched evs) = (s, tick_dict s t)
                \<and> sampled evs \<noteq> [] \<and> last (sampled evs) = s
                \<and> published evs = butlast (map snd (fetched evs))))"
proof -
  obtain res st1 evs where r: "stream_symbols env major_pairs st = (res, st1)" "trace st1 = trace st @ evs"
     "replay env (world st) evs = Some (world st1)"
     "market_data st1 = store_all (market_data st) (fetched evs)"
     "take (length (sampled evs)) major_pairs = sampled evs"
     "res = None \<longrightarrow> sampled evs = major_pairs \<and> published evs = map snd (fetched evs)"
     "\<forall>e. res = Some e \<longrightarrow>
           (\<exists>s t. evs \<noteq> [] \<and> last evs = Emit ''market_data'' (PayDict (tick_dict s t)) (Inl e)
               \<and> fetched evs \<noteq> [] \<and> last (fetched evs) = (s, tick_dict s t)
               \<and> sampled evs \<noteq> [] \<and> last (sampled evs) = s
               \<and> published evs = butlast (map snd (fetched evs)))"
    using stream_symbols_run [OF assms, of env major_pairs] by (elim exE conjE) (rule that)
  obtain ex where x: "trace (worker_iteration env now st) = trace st1 @ ex"
      "replay env (world st1) ex = Some (world (worker_iteration env now st))"
      "market_data (worker_iteration env now st) = market_data st1"
      "sampled ex = []" "fetched ex = []" "published ex = []"
    using worker_iteration_tail [OF r(1), of now] by (elim exE conjE) (rule that)
  have d: "(sampled evs = major_pairs \<and> published evs = map snd (fetched evs))
          \<or> (\<exists>s t e. Emit ''market_data'' (PayDict (tick_dict s t)) (Inl e) \<in> set evs
                \<and> fetched evs \<noteq> [] \<and> last (fetched evs) = (s, tick_dict s t)
                \<and> sampled evs \<noteq> [] \<and> last (sampled evs) = s
                \<and> published evs = butlast (map snd (fetched evs)))"
  proof (cases res)
    case None
    then show ?thesis using r(6) by simp
  next
    case (Some e)
    then obtain s t where l: "evs \<noteq> []" "last evs = Emit ''market_data'' (PayDict (tick_dict s t)) (Inl e)"
        "fetched evs \<noteq> []" "last (fetched evs) = (s, tick_dict s t)"
        "sampled evs \<noteq> []" "last (sampled evs) = s"
        "published evs = butlast (map snd (fetched evs))"
      using r(7) by blast
    have "Emit ''market_data'' (PayDict (tick_dict s t)) (Inl e) \<in> set evs"
      using l(1) l(2) last_in_set by metis
    with l show ?thesis by blast
  qed
  have "trace (worker_iteration env now st) = trace st @ (evs @ ex)" using r x by simp
  moreover have "replay env (world st) (evs @ ex) = Some (world (worker_iteration env now st))"
    using r x by (simp add: replay_append)
  moreover have "market_data (worker_iteration env now st) = store_all (market_data st) (fetched (evs @ ex))"
    using r x by (simp add: fetched_append)
  moreover have "take (length (sampled (evs @ ex))) major_pairs = sampled (evs @ ex)"
    using r x by (simp add: sampled_append)
  moreover have "(sampled (evs @ ex) = major_pairs \<and> published (evs @ ex) = map snd (fetched (evs @ ex)))
          \<or> (\<exists>s t e. Emit ''market_data'' (PayDict (tick_dict s t)) (Inl e) \<in> set (evs @ ex)
                \<and> fetched (evs @ ex) \<noteq> [] \<and> last (fetched (evs @ ex)) = (s, tick_dict s t)
                \<and> sampled (evs @ ex) \<noteq> [] \<and> last (sampled (evs @ ex)) = s
                \<and> published (evs @ ex) = butlast (map snd (fetched (evs @ ex))))"
    using d x by (auto simp: sampled_append fetched_append published_append)
  ultimately show ?thesis by blast
qed

lemma stream_symbols_skip:
  assumes "connected st" and "stream_symbols env pre st = (None, st1)"
    and "\<forall>t. fst (mt5_symbol_info_tick env s (world st1)) \<noteq> Inr (Some t)"
  shows "stream_symbols env (pre @ s # post) st
     = stream_symbols env post
         (st1\<lparr>world := snd (mt5_symbol_info_tick env s (world st1)),
               trace := trace st1 @ [SymbolInfoTick s (fst (mt5_symbol_info_tick env s (world st1)))]\<rparr>)"
proof -
  have c1: "connected st1"
    using stream_symbols_run [OF assms(1), of env pre] assms(2) by auto
  have "get_market_data env s st1
      = (None, st1\<lparr>world := snd (mt5_symbol_info_tick env s (world st1)),
               trace := trace st1 @ [SymbolInfoTick s (fst (mt5_symbol_info_tick env s (world st1)))]\<rparr>)"
    using c1 assms(3)
    by (cases "mt5_symbol_info_tick env s (world st1)")
       (auto simp: get_market_data_def call_def split: sum.splits option.splits)
  then show ?thesis
    using assms(2) by (simp add: stream_symbols_append)
qed

lemma place_order_only_with_tick:
  assumes "connected st"
    and "trace (snd (place_order env symbol order_type volume None sl tp comment st)) = trace st @ evs"
    and "OrderSend req r \<in> set evs"
  shows "\<exists>info tick. evs = [SymbolInfo symbol (Inr (Some info)), SymbolInfoTick symbol (Inr (Some tick)), OrderSend req r]
       \<and> (order_type = ORDER_TYPE_BUY \<longrightarrow> map_of req ''price'' = Some (PFloat (ask tick)))
       \<and> (order_type = ORDER_TYPE_SELL \<longrightarrow> map_of req ''price'' = Some (PFloat (bid tick)))"
  using assms
  by (auto simp: place_order_def call_def ORDER_TYPE_BUY_def ORDER_TYPE_SELL_def err_def Let_def
      split: prod.splits sum.splits option.splits if_splits)

lemma close_position_only_with_tick:
  assumes "connected st"
    and "trace (snd (close_position env T st)) = trace st @ evs"
    and "OrderSend req r \<in> set evs"
  shows "\<exists>position rest tick.
       evs = [PositionsGet (Some T) (Inr (Some (position # rest))),
              SymbolInfoTick (pos_symbol position) (Inr (Some tick)), OrderSend req r]
       \<and> map_of req ''position'' = Some (PInt T)
       \<and> (pos_type position = POSITION_TYPE_BUY \<longrightarrow>
            map_of req ''type'' = Some (PInt ORDER_TYPE_SELL) \<and> map_of req ''price'' = Some (PFloat (bid tick)))
       \<and> (pos_type position = POSITION_TYPE_SELL \<longrightarrow>
            map_of req ''type'' = Some (PInt ORDER_TYPE_BUY) \<and> map_of req ''price'' = Some (PFloat (ask tick)))"
  using assms
  by (auto simp: close_position_def call_def ORDER_TYPE_BUY_def ORDER_TYPE_SELL_def err_def
       POSITION_TYPE_BUY_def POSITION_TYPE_SELL_def Let_def
      split: prod.splits sum.splits option.splits if_splits list.splits)

lemma place_order_replay:
  "trace (snd (place_order env symbol ot v p sl tp c st)) = trace st @ evs
    \<Longrightarrow> replay env (world st) evs = Some (world (snd (place_order env symbol ot v p sl tp c st)))"
  using place_order_run [of env symbol ot v p sl tp c st] by auto

lemma close_position_replay:
  "trace (snd (close_position env T st)) = trace st @ evs
    \<Longrightarrow> replay env (world st) evs = Some (world (snd (close_position env T st)))"
  using close_position_run [of env T st] by auto

section \<open>The example terminals, evaluated\<close>

lemma demo_connected_eq:
  "demo_connected = \<lparr>connected = True, account_info = Some demo_account,
     symbols = [''EURUSD'', ''GBPUSD''], market_data = [], positions = [], orders = [],
     data_thread = Some Thread, running = True, world = 3,
     trace = [Initialize (Inr True), AccountInfo (Inr (Some demo_account)),
              SymbolsGet (Inr (Some [\<lparr>sym_name = ''EURUSD''\<rparr>, \<lparr>sym_name = ''GBPUSD''\<rparr>])),
              ThreadStart]\<rparr>"
  by (simp add: demo_connected_def connect_mt5_def connect_def call_def demo_env_def init_def
      start_data_stream_def log_event_def)

lemma demo_place_order:
  "place_order demo_env ''EURUSD'' ORDER_TYPE_BUY 0.01 None None None ''WingZero'' demo_connected
    = ([(''success'', PBool True), (''order_id'', PInt 1001), (''retcode'', PInt 10009),
        (''comment'', PStr ''Request executed'')],
       demo_connected\<lparr>world := 6, trace := trace demo_connected @
         [SymbolInfo ''EURUSD'' (Inr (Some \<lparr>sym_name = ''EURUSD''\<rparr>)),
          SymbolInfoTick ''EURUSD'' (Inr (Some (demo_tick 4))),
          OrderSend demo_buy_request (Inr (Some demo_done))]\<rparr>)"
  by (simp add: demo_connected_eq place_order_def call_def demo_env_def demo_tick_def
      demo_buy_request_def demo_done_def opt_float_def Let_def
      ORDER_TYPE_BUY_def TRADE_ACTION_DEAL_def ORDER_TIME_GTC_def ORDER_FILLING_IOC_def
      TRADE_RETCODE_DONE_def)

lemma demo_close_long:
  "close_position demo_env 7 demo_connected
    = ([(''success'', PBool True), (''order_id'', PInt 1001), (''retcode'', PInt 10009)],
       demo_connected\<lparr>world := 6, trace := trace demo_connected @
         [PositionsGet (Some 7) (Inr (Some [demo_long])),
          SymbolInfoTick ''EURUSD'' (Inr (Some (demo_tick 4))),
          OrderSend demo_close_long_request (Inr (Some demo_done))]\<rparr>)"
  by (simp add: demo_connected_eq close_position_def call_def demo_env_def demo_tick_def
      demo_close_long_request_def demo_done_def demo_long_def Let_def
      ORDER_TYPE_BUY_def ORDER_TYPE_SELL_def POSITION_TYPE_BUY_def
      TRADE_ACTION_DEAL_def ORDER_TIME_GTC_def ORDER_FILLING_IOC_def TRADE_RETCODE_DONE_def)

lemma demo_close_short:
  "close_position demo_env 8 demo_connected
    = ([(''success'', PBool True), (''order_id'', PInt 1001), (''retcode'', PInt 10009)],
       demo_connected\<lparr>world := 6, trace := trace demo_connected @
         [PositionsGet (Some 8) (Inr (Some [demo_short])),
          SymbolInfoTick ''EURUSD'' (Inr (Some (demo_tick 4))),
          OrderSend demo_close_short_request (Inr (Some demo_done))]\<rparr>)"
  by (simp add: demo_connected_eq close_position_def call_def demo_env_def demo_tick_def
      demo_close_short_request_def demo_done_def demo_short_def Let_def
      ORDER_TYPE_BUY_def ORDER_TYPE_SELL_def POSITION_TYPE_BUY_def POSITION_TYPE_SELL_def
      TRADE_ACTION_DEAL_def ORDER_TIME_GTC_def ORDER_FILLING_IOC_def TRADE_RETCODE_DONE_def)





lemma demo_disconnect:
  "disconnect demo_shutdown_raises demo_connected
     = (Inl ''IPC connection lost'', demo_connected\<lparr>running := False, world := 4,
          trace := trace demo_connected @ [ThreadJoin, Shutdown (Inl ''IPC connection lost'')]\<rparr>)"
  by (simp add: demo_connected_eq disconnect_def call_def demo_shutdown_raises_def demo_env_def
      log_event_def Let_def)

lemma demo_iteration:
  "new_events demo_connected (worker_iteration demo_gaps 11 demo_connected) =
     [SymbolInfoTick ''EURUSD'' (Inr (Some (demo_tick 3))),
      Emit ''market_data'' (PayDict (tick_dict ''EURUSD'' (demo_tick 3))) (Inr ()),
      SymbolInfoTick ''GBPUSD'' (Inr None),
      SymbolInfoTick ''USDJPY'' (Inl ''timeout''),
      SymbolInfoTick ''USDCHF'' (Inr (Some (demo_tick 6))),
      Emit ''market_data'' (PayDict (tick_dict ''USDCHF'' (demo_tick 6))) (Inr ()),
      SymbolInfoTick ''AUDUSD'' (Inr (Some (demo_tick 7))),
      Emit ''market_data'' (PayDict (tick_dict ''AUDUSD'' (demo_tick 7))) (Inr ()),
      SymbolInfoTick ''USDCAD'' (Inr (Some (demo_tick 8))),
      Emit ''market_data'' (PayDict (tick_dict ''USDCAD'' (demo_tick 8))) (Inr ()),
      SymbolInfoTick ''NZDUSD'' (Inr (Some (demo_tick 9))),
      Emit ''market_data'' (PayDict (tick_dict ''NZDUSD'' (demo_tick 9))) (Inr ()),
      Sleep 1]
   \<and> map fst (market_data (worker_iteration demo_gaps 11 demo_connected))
      = [''EURUSD'', ''USDCHF'', ''AUDUSD'', ''USDCAD'', ''NZDUSD'']"
  by (simp add: demo_connected_eq worker_iteration_def major_pairs_def get_market_data_def call_def
      demo_gaps_def demo_env_def log_event_def new_events_def tick_dict_def)

lemma demo_place_order_sell:
  "place_order demo_env ''EURUSD'' ORDER_TYPE_SELL 0.01 None None None ''WingZero'' demo_connected
    = ([(''success'', PBool True), (''order_id'', PInt 1001), (''retcode'', PInt 10009),
        (''comment'', PStr ''Request executed'')],
       demo_connected\<lparr>world := 6, trace := trace demo_connected @
         [SymbolInfo ''EURUSD'' (Inr (Some \<lparr>sym_name = ''EURUSD''\<rparr>)),
          SymbolInfoTick ''EURUSD'' (Inr (Some (demo_tick 4))),
          OrderSend demo_sell_request (Inr (Some demo_done))]\<rparr>)"
  by (simp add: demo_connected_eq place_order_def call_def demo_env_def demo_tick_def
      demo_sell_request_def demo_done_def opt_float_def Let_def
      ORDER_TYPE_BUY_def ORDER_TYPE_SELL_def TRADE_ACTION_DEAL_def ORDER_TIME_GTC_def ORDER_FILLING_IOC_def
      TRADE_RETCODE_DONE_def)

lemma demo_rejected:
  "place_order demo_rejecting ''EURUSD'' ORDER_TYPE_BUY 0.01 None None None ''WingZero'' demo_connected
    = ([(''error'', PStr ''Order failed: Invalid request'')],
       demo_connected\<lparr>world := 6, trace := trace demo_connected @
         [SymbolInfo ''EURUSD'' (Inr (Some \<lparr>sym_name = ''EURUSD''\<rparr>)),
          SymbolInfoTick ''EURUSD'' (Inr (Some (demo_tick 4))),
          OrderSend demo_buy_request
            (Inr (Some \<lparr>retcode = 10013, res_order = 0, res_comment = ''Invalid request''\<rparr>))]\<rparr>)"
  by (simp add: demo_connected_eq place_order_def call_def demo_rejecting_def demo_env_def demo_tick_def
      demo_buy_request_def opt_float_def Let_def err_def
      ORDER_TYPE_BUY_def TRADE_ACTION_DEAL_def ORDER_TIME_GTC_def ORDER_FILLING_IOC_def
      TRADE_RETCODE_DONE_def)

lemma demo_first_symbol:
  "stream_symbols demo_gaps [''EURUSD''] demo_connected
     = (None, demo_connected\<lparr>market_data := [(''EURUSD'', tick_dict ''EURUSD'' (demo_tick 3))],
          world := 4, trace := trace demo_connected @
            [SymbolInfoTick ''EURUSD'' (Inr (Some (demo_tick 3))),
             Emit ''market_data'' (PayDict (tick_dict ''EURUSD'' (demo_tick 3))) (Inr ())]\<rparr>)"
  by (simp add: demo_connected_eq get_market_data_def call_def demo_gaps_def demo_env_def tick_dict_def)

lemma demo_iteration_emit_raises:
  "new_events demo_connected (worker_iteration demo_emit_raises 11 demo_connected) =
     [SymbolInfoTick ''EURUSD'' (Inr None),
      SymbolInfoTick ''GBPUSD'' (Inr (Some (demo_tick 4))),
      Emit ''market_data'' (PayDict (tick_dict ''GBPUSD'' (demo_tick 4))) (Inl ''socket closed''),
      Sleep 5]
   \<and> market_data (worker_iteration demo_emit_raises 11 demo_connected)
      = [(''GBPUSD'', tick_dict ''GBPUSD'' (demo_tick 4))]"
  by (simp add: demo_connected_eq worker_iteration_def major_pairs_def get_market_data_def call_def
      demo_emit_raises_def demo_env_def log_event_def new_events_def tick_dict_def)

section \<open>Guards on the connection status\<close>

text \<open>Claim C1. While the bridge is not connected, each of the six operations fails
  and makes no call into the terminal. The methods \<^verbatim>\<open>place_order\<close> and \<^verbatim>\<open>close_position\<close>
  return the error "Not connected to MT5"; the accessors return their empty value
  (\<^verbatim>\<open>None\<close> or \<^verbatim>\<open>[]\<close>), which the REST handler of each operation reports as the error
  "Not connected to MT5" with status 400. In every case the state comes back as it was:
  the world did not move and no event was recorded, so neither the order submission nor
  any other function of the terminal ran.\<close>

theorem not_connected_fails:
  assumes "\<not> connected st"
  shows "place_order env symbol order_type volume price sl tp comment st = (err ''Not connected to MT5'', st)
    \<and> close_position env ticket st = (err ''Not connected to MT5'', st)
    \<and> get_account_info env st = (None, st)
    \<and> get_positions env st = ([], st)
    \<and> get_orders env st = ([], st)
    \<and> get_market_data env symbol st = (None, st)
    \<and> place_order_route env data st = ((JDict (err ''Not connected to MT5''), 400), st)
    \<and> close_position_route env ticket st = ((JDict (err ''Not connected to MT5''), 400), st)
    \<and> get_account env st = ((JDict (err ''Not connected to MT5''), 400), st)
    \<and> get_positions_route env st = ((JDict (err ''Not connected to MT5''), 400), st)
    \<and> get_orders_route env st = ((JDict (err ''Not connected to MT5''), 400), st)
    \<and> get_market_data_route env symbol st = ((JDict (err ''Not connected to MT5''), 400), st)"
  using assms
  by (simp add: place_order_def close_position_def get_account_info_def get_positions_def
      get_orders_def get_market_data_def place_order_route_def close_position_route_def
      get_account_def get_positions_route_def get_orders_route_def get_market_data_route_def)

text \<open>On the bridge as \<^verbatim>\<open>__init__\<close> leaves it, an order and a query of the positions.\<close>

theorem not_connected_fails_witness:
  "\<not> connected (init 0 :: (nat, real) state)
   \<and> place_order demo_env ''EURUSD'' ORDER_TYPE_BUY 0.01 None None None ''WingZero'' (init 0)
       = ([(''error'', PStr ''Not connected to MT5'')], init 0)
   \<and> get_positions demo_env (init 0) = ([], init 0)
   \<and> get_positions_route demo_env (init 0)
       = ((JDict [(''error'', PStr ''Not connected to MT5'')], 400), init 0)"
proof -
  have h: "\<not> connected (init 0 :: (nat, real) state)"
    by (simp add: init_def)
  show ?thesis
    using h not_connected_fails [OF h, of demo_env "''EURUSD''" ORDER_TYPE_BUY "0.01" None None None "''WingZero''"]
    by (simp add: err_def)
qed

section \<open>Prices and sides of the deals\<close>

text \<open>Claim C2. \<^verbatim>\<open>place_order\<close> on a connected bridge with no explicit price. When the
  symbol is known and the tick query returns a tick, the call submits a request to the
  venue: the world after the call is the world \<^verbatim>\<open>order_send\<close> returns for that request,
  on the world left by the tick query. The request is for the symbol, volume and side
  given, and its price is the ask of that tick for a buy and its bid for a sell.
  Conversely a request is only submitted after a tick query that returned a tick, at
  that price, and the record of the call replays on the terminal.\<close>

theorem place_order_market_price:
  assumes "connected st"
  shows "(\<forall>info w1 tick w2.
            mt5_symbol_info env symbol (world st) = (Inr (Some info), w1)
          \<and> mt5_symbol_info_tick env symbol w1 = (Inr (Some tick), w2) \<longrightarrow>
            (\<exists>req. map_of req ''symbol'' = Some (PStr symbol)
               \<and> map_of req ''volume'' = Some (PFloat volume)
               \<and> map_of req ''type'' = Some (PInt order_type)
               \<and> (order_type = ORDER_TYPE_BUY \<longrightarrow> map_of req ''price'' = Some (PFloat (ask tick)))
               \<and> (order_type = ORDER_TYPE_SELL \<longrightarrow> map_of req ''price'' = Some (PFloat (bid tick)))
               \<and> snd (place_order env symbol order_type volume None sl tp comment st)
                   = st\<lparr>world := snd (mt5_order_send env req w2),
                         trace := trace st @ [SymbolInfo symbol (Inr (Some info)),
                                              SymbolInfoTick symbol (Inr (Some tick)),
                                              OrderSend req (fst (mt5_order_send env req w2))]\<rparr>))
    \<and> (\<forall>evs req r.
            trace (snd (place_order env symbol order_type volume None sl tp comment st)) = trace st @ evs
          \<and> OrderSend req r \<in> set evs \<longrightarrow>
            (\<exists>info tick. evs = [SymbolInfo symbol (Inr (Some info)),
                                SymbolInfoTick symbol (Inr (Some tick)), OrderSend req r]
               \<and> (order_type = ORDER_TYPE_BUY \<longrightarrow> map_of req ''price'' = Some (PFloat (ask tick)))
               \<and> (order_type = ORDER_TYPE_SELL \<longrightarrow> map_of req ''price'' = Some (PFloat (bid tick))))
          \<and> replay env (world st) evs
               = Some (world (snd (place_order env symbol order_type volume None sl tp comment st))))"
proof (intro conjI allI impI)
  fix info w1 tick w2
  assume "mt5_symbol_info env symbol (world st) = (Inr (Some info), w1)
          \<and> mt5_symbol_info_tick env symbol w1 = (Inr (Some tick), w2)"
  then show "\<exists>req. map_of req ''symbol'' = Some (PStr symbol)
               \<and> map_of req ''volume'' = Some (PFloat volume)
               \<and> map_of req ''type'' = Some (PInt order_type)
               \<and> (order_type = ORDER_TYPE_BUY \<longrightarrow> map_of req ''price'' = Some (PFloat (ask tick)))
               \<and> (order_type = ORDER_TYPE_SELL \<longrightarrow> map_of req ''price'' = Some (PFloat (bid tick)))
               \<and> snd (place_order env symbol order_type volume None sl tp comment st)
                   = st\<lparr>world := snd (mt5_order_send env req w2),
                         trace := trace st @ [SymbolInfo symbol (Inr (Some info)),
                                              SymbolInfoTick symbol (Inr (Some tick)),
                                              OrderSend req (fst (mt5_order_send env req w2))]\<rparr>"
    using place_order_submits [OF assms, of env symbol info w1 tick w2 volume order_type sl tp comment]
    by blast
next
  fix evs req r
  assume a: "trace (snd (place_order env symbol order_type volume None sl tp comment st)) = trace st @ evs
          \<and> OrderSend req r \<in> set evs"
  then show "\<exists>info tick. evs = [SymbolInfo symbol (Inr (Some info)),
                                SymbolInfoTick symbol (Inr (Some tick)), OrderSend req r]
               \<and> (order_type = ORDER_TYPE_BUY \<longrightarrow> map_of req ''price'' = Some (PFloat (ask tick)))
               \<and> (order_type = ORDER_TYPE_SELL \<longrightarrow> map_of req ''price'' = Some (PFloat (bid tick)))"
    using place_order_only_with_tick [OF assms, of env symbol order_type volume sl tp comment evs req r]
    by blast
  from a show "replay env (world st) evs
               = Some (world (snd (place_order env symbol order_type volume None sl tp comment st)))"
    by (intro place_order_replay) simp
qed

text \<open>A buy and a sell of EURUSD on the example terminal: the fourth call is the tick
  query, with bid 1.1004 and ask 1.1006; the buy is submitted at 1.1006 and the sell at
  1.1004.\<close>

theorem place_order_market_price_witness:
  "connected demo_connected
   \<and> mt5_symbol_info demo_env ''EURUSD'' (world demo_connected) = (Inr (Some \<lparr>sym_name = ''EURUSD''\<rparr>), 4)
   \<and> mt5_symbol_info_tick demo_env ''EURUSD'' 4 = (Inr (Some (demo_tick 4)), 5)
   \<and> bid (demo_tick 4) = 1.1004 \<and> ask (demo_tick 4) = 1.1006
   \<and> mt5_order_send demo_env demo_buy_request 5 = (Inr (Some demo_done), 6)
   \<and> snd (place_order demo_env ''EURUSD'' ORDER_TYPE_BUY 0.01 None None None ''WingZero'' demo_connected)
       = demo_connected\<lparr>world := 6, trace := trace demo_connected @
         [SymbolInfo ''EURUSD'' (Inr (Some \<lparr>sym_name = ''EURUSD''\<rparr>)),
          SymbolInfoTick ''EURUSD'' (Inr (Some (demo_tick 4))),
          OrderSend demo_buy_request (Inr (Some demo_done))]\<rparr>
   \<and> map_of demo_buy_request ''price'' = Some (PFloat 1.1006)
   \<and> mt5_order_send demo_env demo_sell_request 5 = (Inr (Some demo_done), 6)
   \<and> snd (place_order demo_env ''EURUSD'' ORDER_TYPE_SELL 0.01 None None None ''WingZero'' demo_connected)
       = demo_connected\<lparr>world := 6, trace := trace demo_connected @
         [SymbolInfo ''EURUSD'' (Inr (Some \<lparr>sym_name = ''EURUSD''\<rparr>)),
          SymbolInfoTick ''EURUSD'' (Inr (Some (demo_tick 4))),
          OrderSend demo_sell_request (Inr (Some demo_done))]\<rparr>
   \<and> map_of demo_sell_request ''price'' = Some (PFloat 1.1004)
   \<and> replay demo_env (world demo_connected)
         [SymbolInfo ''EURUSD'' (Inr (Some \<lparr>sym_name = ''EURUSD''\<rparr>)),
          SymbolInfoTick ''EURUSD'' (Inr (Some (demo_tick 4))),
          OrderSend demo_sell_request (Inr (Some demo_done))]
       = Some 6"
proof -
  have h1: "connected demo_connected"
    by (simp add: demo_connected_eq)
  have h2: "mt5_symbol_info demo_env ''EURUSD'' (world demo_connected) = (Inr (Some \<lparr>sym_name = ''EURUSD''\<rparr>), 4)
      \<and> mt5_symbol_info_tick demo_env ''EURUSD'' 4 = (Inr (Some (demo_tick 4)), 5)"
    by (simp add: demo_connected_eq demo_env_def)
  have q: "bid (demo_tick 4) = 1.1004" "ask (demo_tick 4) = 1.1006"
    by (simp_all add: demo_tick_def)
  have o: "mt5_order_send demo_env demo_buy_request 5 = (Inr (Some demo_done), 6)"
    "mt5_order_send demo_env demo_sell_request 5 = (Inr (Some demo_done), 6)"
    by (simp_all add: demo_env_def)
  have b: "snd (place_order demo_env ''EURUSD'' ORDER_TYPE_BUY 0.01 None None None ''WingZero'' demo_connected)
       = demo_connected\<lparr>world := 6, trace := trace demo_connected @
         [SymbolInfo ''EURUSD'' (Inr (Some \<lparr>sym_name = ''EURUSD''\<rparr>)),
          SymbolInfoTick ''EURUSD'' (Inr (Some (demo_tick 4))),
          OrderSend demo_buy_request (Inr (Some demo_done))]\<rparr>"
    using demo_place_order by simp
  have s: "snd (place_order demo_env ''EURUSD'' ORDER_TYPE_SELL 0.01 None None None ''WingZero'' demo_connected)
       = demo_connected\<lparr>world := 6, trace := trace demo_connected @
         [SymbolInfo ''EURUSD'' (Inr (Some \<lparr>sym_name = ''EURUSD''\<rparr>)),
          SymbolInfoTick ''EURUSD'' (Inr (Some (demo_tick 4))),
          OrderSend demo_sell_request (Inr (Some demo_done))]\<rparr>"
    using demo_place_order_sell by simp
  have st: "trace (snd (place_order demo_env ''EURUSD'' ORDER_TYPE_SELL 0.01 None None None ''WingZero'' demo_connected))
       = trace demo_connected @
         [SymbolInfo ''EURUSD'' (Inr (Some \<lparr>sym_name = ''EURUSD''\<rparr>)),
          SymbolInfoTick ''EURUSD'' (Inr (Some (demo_tick 4))),
          OrderSend demo_sell_request (Inr (Some demo_done))]
      \<and> OrderSend demo_sell_request (Inr (Some demo_done))
        \<in> set [SymbolInfo ''EURUSD'' (Inr (Some \<lparr>sym_name = ''EURUSD''\<rparr>)),
          SymbolInfoTick ''EURUSD'' (Inr (Some (demo_tick 4))),
          OrderSend demo_sell_request (Inr (Some demo_done))]"
    using s by simp
  note t = place_order_market_price [OF h1, where env = demo_env and symbol = "''EURUSD''"
      and order_type = ORDER_TYPE_SELL and volume = "0.01" and sl = None and tp = None
      and comment = "''WingZero''"]
  have p: "map_of demo_sell_request ''price'' = Some (PFloat 1.1004)"
    using t [THEN conjunct2, rule_format, OF st] q by (auto simp: ORDER_TYPE_SELL_def)
  have r: "replay demo_env (world demo_connected)
         [SymbolInfo ''EURUSD'' (Inr (Some \<lparr>sym_name = ''EURUSD''\<rparr>)),
          SymbolInfoTick ''EURUSD'' (Inr (Some (demo_tick 4))),
          OrderSend demo_sell_request (Inr (Some demo_done))]
       = Some 6"
    using t [THEN conjunct2, rule_format, OF st] s by simp
  have pb: "map_of demo_buy_request ''price'' = Some (PFloat 1.1006)"
    by (simp add: demo_buy_request_def)
  show ?thesis
    using h1 h2 q o b s p r pb by blast
qed

text \<open>Claim C3. \<^verbatim>\<open>close_position\<close> on ticket \<open>T\<close> of a connected bridge. When the lookup by
  ticket returns the position and the tick query for its symbol returns a tick, the call
  submits a request to the venue: the world after the call is the world \<^verbatim>\<open>order_send\<close>
  returns for that request, on the world left by the tick query. The request references
  \<open>T\<close> and carries the symbol and volume of the position; for a recorded long position
  it is a sell at the bid of that tick, for a recorded short position a buy at its ask.
  Conversely a request is only submitted after such a lookup and tick query, with that
  side and price, and the record of the call replays on the terminal.\<close>

theorem close_position_opposite_side:
  assumes "connected st"
  shows "(\<forall>position rest w1 tick w2.
            mt5_positions_get env (Some T) (world st) = (Inr (Some (position # rest)), w1)
          \<and> mt5_symbol_info_tick env (pos_symbol position) w1 = (Inr (Some tick), w2) \<longrightarrow>
            (\<exists>req. map_of req ''symbol'' = Some (PStr (pos_symbol position))
               \<and> map_of req ''volume'' = Some (PFloat (pos_volume position))
               \<and> map_of req ''position'' = Some (PInt T)
               \<and> (pos_type position = POSITION_TYPE_BUY \<longrightarrow>
                    map_of req ''type'' = Some (PInt ORDER_TYPE_SELL)
                  \<and> map_of req ''price'' = Some (PFloat (bid tick)))
               \<and> (pos_type position = POSITION_TYPE_SELL \<longrightarrow>
                    map_of req ''type'' = Some (PInt ORDER_TYPE_BUY)
                  \<and> map_of req ''price'' = Some (PFloat (ask tick)))
               \<and> snd (close_position env T st)
                   = st\<lparr>world := snd (mt5_order_send env req w2),
                         trace := trace st @ [PositionsGet (Some T) (Inr (Some (position # rest))),
                                              SymbolInfoTick (pos_symbol position) (Inr (Some tick)),
                                              OrderSend req (fst (mt5_order_send env req w2))]\<rparr>))
    \<and> (\<forall>evs req r.
            trace (snd (close_position env T st)) = trace st @ evs
          \<and> OrderSend req r \<in> set evs \<longrightarrow>
            (\<exists>position rest tick.
               evs = [PositionsGet (Some T) (Inr (Some (position # rest))),
                      SymbolInfoTick (pos_symbol position) (Inr (Some tick)), OrderSend req r]
               \<and> map_of req ''position'' = Some (PInt T)
               \<and> (pos_type position = POSITION_TYPE_BUY \<longrightarrow>
                    map_of req ''type'' = Some (PInt ORDER_TYPE_SELL)
                  \<and> map_of req ''price'' = Some (PFloat (bid tick)))
               \<and> (pos_type position = POSITION_TYPE_SELL \<longrightarrow>
                    map_of req ''type'' = Some (PInt ORDER_TYPE_BUY)
                  \<and> map_of req ''price'' = Some (PFloat (ask tick))))
          \<and> replay env (world st) evs = Some (world (snd (close_position env T st))))"
proof (intro conjI allI impI)
  fix position rest w1 tick w2
  assume "mt5_positions_get env (Some T) (world st) = (Inr (Some (position # rest)), w1)
          \<and> mt5_symbol_info_tick env (pos_symbol position) w1 = (Inr (Some tick), w2)"
  then show "\<exists>req. map_of req ''symbol'' = Some (PStr (pos_symbol position))
               \<and> map_of req ''volume'' = Some (PFloat (pos_volume position))
               \<and> map_of req ''position'' = Some (PInt T)
               \<and> (pos_type position = POSITION_TYPE_BUY \<longrightarrow>
                    map_of req ''type'' = Some (PInt ORDER_TYPE_SELL)
                  \<and> map_of req ''price'' = Some (PFloat (bid tick)))
               \<and> (pos_type position = POSITION_TYPE_SELL \<longrightarrow>
                    map_of req ''type'' = Some (PInt ORDER_TYPE_BUY)
                  \<and> map_of req ''price'' = Some (PFloat (ask tick)))
               \<and> snd (close_position env T st)
                   = st\<lparr>world := snd (mt5_order_send env req w2),
                         trace := trace st @ [PositionsGet (Some T) (Inr (Some (position # rest))),
                                              SymbolInfoTick (pos_symbol position) (Inr (Some tick)),
                                              OrderSend req (fst (mt5_order_send env req w2))]\<rparr>"
    using close_position_submits [OF assms, where env = env and T = T and position = position
        and rest = rest and ?w1.0 = w1 and tick = tick and ?w2.0 = w2]
    by blast
next
  fix evs req r
  assume a: "trace (snd (close_position env T st)) = trace st @ evs \<and> OrderSend req r \<in> set evs"
  then show "\<exists>position rest tick.
               evs = [PositionsGet (Some T) (Inr (Some (position # rest))),
                      SymbolInfoTick (pos_symbol position) (Inr (Some tick)), OrderSend req r]
               \<and> map_of req ''position'' = Some (PInt T)
               \<and> (pos_type position = POSITION_TYPE_BUY \<longrightarrow>
                    map_of req ''type'' = Some (PInt ORDER_TYPE_SELL)
                  \<and> map_of req ''price'' = Some (PFloat (bid tick)))
               \<and> (pos_type position = POSITION_TYPE_SELL \<longrightarrow>
                    map_of req ''type'' = Some (PInt ORDER_TYPE_BUY)
                  \<and> map_of req ''price'' = Some (PFloat (ask tick)))"
    using close_position_only_with_tick [OF assms, where env = env and T = T and evs = evs
        and req = req and r = r]
    by blast
  from a show "replay env (world st) evs = Some (world (snd (close_position env T st)))"
    by (intro close_position_replay) simp
qed

text \<open>Closing the long position 7 and the short position 8 of the example terminal, with
  bid 1.1004 and ask 1.1006: a sell at 1.1004 and a buy at 1.1006.\<close>

theorem close_position_opposite_side_witness:
  "connected demo_connected
   \<and> mt5_positions_get demo_env (Some 7) (world demo_connected) = (Inr (Some [demo_long]), 4)
   \<and> mt5_positions_get demo_env (Some 8) (world demo_connected) = (Inr (Some [demo_short]), 4)
   \<and> mt5_symbol_info_tick demo_env ''EURUSD'' 4 = (Inr (Some (demo_tick 4)), 5)
   \<and> pos_symbol demo_long = ''EURUSD'' \<and> pos_symbol demo_short = ''EURUSD''
   \<and> pos_type demo_long = POSITION_TYPE_BUY \<and> pos_type demo_short = POSITION_TYPE_SELL
   \<and> mt5_order_send demo_env demo_close_long_request 5 = (Inr (Some demo_done), 6)
   \<and> snd (close_position demo_env 7 demo_connected) = demo_connected\<lparr>world := 6,
        trace := trace demo_connected @
         [PositionsGet (Some 7) (Inr (Some [demo_long])),
          SymbolInfoTick ''EURUSD'' (Inr (Some (demo_tick 4))),
          OrderSend demo_close_long_request (Inr (Some demo_done))]\<rparr>
   \<and> map_of demo_close_long_request ''position'' = Some (PInt 7)
   \<and> map_of demo_close_long_request ''type'' = Some (PInt ORDER_TYPE_SELL)
   \<and> map_of demo_close_long_request ''price'' = Some (PFloat (bid (demo_tick 4)))
   \<and> mt5_order_send demo_env demo_close_short_request 5 = (Inr (Some demo_done), 6)
   \<and> snd (close_position demo_env 8 demo_connected) = demo_connected\<lparr>world := 6,
        trace := trace demo_connected @
         [PositionsGet (Some 8) (Inr (Some [demo_short])),
          SymbolInfoTick ''EURUSD'' (Inr (Some (demo_tick 4))),
          OrderSend demo_close_short_request (Inr (Some demo_done))]\<rparr>
   \<and> map_of demo_close_short_request ''position'' = Some (PInt 8)
   \<and> map_of demo_close_short_request ''type'' = Some (PInt ORDER_TYPE_BUY)
   \<and> map_of demo_close_short_request ''price'' = Some (PFloat (ask (demo_tick 4)))
   \<and> replay demo_env (world demo_connected)
         [PositionsGet (Some 8) (Inr (Some [demo_short])),
          SymbolInfoTick ''EURUSD'' (Inr (Some (demo_tick 4))),
          OrderSend demo_close_short_request (Inr (Some demo_done))] = Some 6"
proof -
  have h1: "connected demo_connected"
    by (simp add: demo_connected_eq)
  have g: "mt5_positions_get demo_env (Some 7) (world demo_connected) = (Inr (Some [demo_long]), 4)"
    "mt5_positions_get demo_env (Some 8) (world demo_connected) = (Inr (Some [demo_short]), 4)"
    "mt5_symbol_info_tick demo_env ''EURUSD'' 4 = (Inr (Some (demo_tick 4)), 5)"
    "mt5_order_send demo_env demo_close_long_request 5 = (Inr (Some demo_done), 6)"
    "mt5_order_send demo_env demo_close_short_request 5 = (Inr (Some demo_done), 6)"
    by (simp_all add: demo_connected_eq demo_env_def)
  have t: "pos_symbol demo_long = ''EURUSD''" "pos_symbol demo_short = ''EURUSD''"
    "pos_type demo_long = POSITION_TYPE_BUY" "pos_type demo_short = POSITION_TYPE_SELL"
    by (simp_all add: demo_long_def demo_short_def)
  have l: "snd (close_position demo_env 7 demo_connected) = demo_connected\<lparr>world := 6,
        trace := trace demo_connected @
         [PositionsGet (Some 7) (Inr (Some [demo_long])),
          SymbolInfoTick ''EURUSD'' (Inr (Some (demo_tick 4))),
          OrderSend demo_close_long_request (Inr (Some demo_done))]\<rparr>"
    by (simp add: demo_close_long)
  have s: "snd (close_position demo_env 8 demo_connected) = demo_connected\<lparr>world := 6,
        trace := trace demo_connected @
         [PositionsGet (Some 8) (Inr (Some [demo_short])),
          SymbolInfoTick ''EURUSD'' (Inr (Some (demo_tick 4))),
          OrderSend demo_close_short_request (Inr (Some demo_done))]\<rparr>"
    by (simp add: demo_close_short)
  have lt: "trace (snd (close_position demo_env 7 demo_connected)) = trace demo_connected @
         [PositionsGet (Some 7) (Inr (Some [demo_long])),
          SymbolInfoTick ''EURUSD'' (Inr (Some (demo_tick 4))),
          OrderSend demo_close_long_request (Inr (Some demo_done))]
     \<and> OrderSend demo_close_long_request (Inr (Some demo_done))
       \<in> set [PositionsGet (Some 7) (Inr (Some [demo_long])),
          SymbolInfoTick ''EURUSD'' (Inr (Some (demo_tick 4))),
          OrderSend demo_close_long_request (Inr (Some demo_done))]"
    by (simp add: l)
  have st: "trace (snd (close_position demo_env 8 demo_connected)) = trace demo_connected @
         [PositionsGet (Some 8) (Inr (Some [demo_short])),
          SymbolInfoTick ''EURUSD'' (Inr (Some (demo_tick 4))),
          OrderSend demo_close_short_request (Inr (Some demo_done))]
     \<and> OrderSend demo_close_short_request (Inr (Some demo_done))
       \<in> set [PositionsGet (Some 8) (Inr (Some [demo_short])),
          SymbolInfoTick ''EURUSD'' (Inr (Some (demo_tick 4))),
          OrderSend demo_close_short_request (Inr (Some demo_done))]"
    by (simp add: s)
  note a = close_position_opposite_side [OF h1, where env = demo_env and T = 7,
      THEN conjunct2, rule_format, OF lt]
  note b = close_position_opposite_side [OF h1, where env = demo_env and T = 8,
      THEN conjunct2, rule_format, OF st]
  have la: "map_of demo_close_long_request ''position'' = Some (PInt 7)"
    "map_of demo_close_long_request ''type'' = Some (PInt ORDER_TYPE_SELL)"
    "map_of demo_close_long_request ''price'' = Some (PFloat (bid (demo_tick 4)))"
    using a t by auto
  have sa: "map_of demo_close_short_request ''position'' = Some (PInt 8)"
    "map_of demo_close_short_request ''type'' = Some (PInt ORDER_TYPE_BUY)"
    "map_of demo_close_short_request ''price'' = Some (PFloat (ask (demo_tick 4)))"
    using b t by auto
  have w: "world (snd (close_position demo_env 8 demo_connected)) = 6"
    by (simp add: s)
  have r: "replay demo_env (world demo_connected)
         [PositionsGet (Some 8) (Inr (Some [demo_short])),
          SymbolInfoTick ''EURUSD'' (Inr (Some (demo_tick 4))),
          OrderSend demo_close_short_request (Inr (Some demo_done))] = Some 6"
    using b [THEN conjunct2] unfolding w by assumption
  show ?thesis
    using h1 g t l s la sa r by blast
qed

section \<open>Result dictionaries\<close>

text \<open>Claim C10. The dictionary returned by \<^verbatim>\<open>place_order\<close> and by \<^verbatim>\<open>close_position\<close> has
  the key \<^verbatim>\<open>error\<close> if and only if the operation failed, that is, unless the call ended
  with an \<^verbatim>\<open>order_send\<close> that the venue answered with \<^verbatim>\<open>TRADE_RETCODE_DONE\<close>. A
  successful \<^verbatim>\<open>place_order\<close> has exactly the keys success, order_id, retcode and comment;
  a successful \<^verbatim>\<open>close_position\<close> exactly success, order_id and retcode. The record of the
  call replays on the terminal, so the last event is what the venue replied; and a
  dictionary without \<^verbatim>\<open>error\<close> carries the order and return code of a reply
  \<^verbatim>\<open>TRADE_RETCODE_DONE\<close> of \<^verbatim>\<open>order_send\<close>, whose world is the world after the call.\<close>

theorem result_keys:
  "(''error'' \<in> set (map fst (fst (place_order env symbol ot v p sl tp c st)))
      \<longleftrightarrow> \<not> deal_done (new_events st (snd (place_order env symbol ot v p sl tp c st))))
   \<and> (deal_done (new_events st (snd (place_order env symbol ot v p sl tp c st)))
      \<longrightarrow> map fst (fst (place_order env symbol ot v p sl tp c st)) = [''success'', ''order_id'', ''retcode'', ''comment''])
   \<and> (''error'' \<in> set (map fst (fst (close_position env ticket st)))
      \<longleftrightarrow> \<not> deal_done (new_events st (snd (close_position env ticket st))))
   \<and> (deal_done (new_events st (snd (close_position env ticket st)))
      \<longrightarrow> map fst (fst (close_position env ticket st)) = [''success'', ''order_id'', ''retcode''])
   \<and> replay env (world st) (new_events st (snd (place_order env symbol ot v p sl tp c st)))
        = Some (world (snd (place_order env symbol ot v p sl tp c st)))
   \<and> (''error'' \<notin> set (map fst (fst (place_order env symbol ot v p sl tp c st))) \<longrightarrow>
        (\<exists>req w result.
            mt5_order_send env req w = (Inr (Some result), world (snd (place_order env symbol ot v p sl tp c st)))
          \<and> retcode result = TRADE_RETCODE_DONE
          \<and> last (new_events st (snd (place_order env symbol ot v p sl tp c st)))
               = OrderSend req (Inr (Some result))
          \<and> fst (place_order env symbol ot v p sl tp c st)
               = [(''success'', PBool True), (''order_id'', PInt (res_order result)),
                  (''retcode'', PInt (retcode result)), (''comment'', PStr (res_comment result))]))
   \<and> replay env (world st) (new_events st (snd (close_position env ticket st)))
        = Some (world (snd (close_position env ticket st)))
   \<and> (''error'' \<notin> set (map fst (fst (close_position env ticket st))) \<longrightarrow>
        (\<exists>req w result.
            mt5_order_send env req w = (Inr (Some result), world (snd (close_position env ticket st)))
          \<and> retcode result = TRADE_RETCODE_DONE
          \<and> last (new_events st (snd (close_position env ticket st))) = OrderSend req (Inr (Some result))
          \<and> fst (close_position env ticket st)
               = [(''success'', PBool True), (''order_id'', PInt (res_order result)),
                  (''retcode'', PInt (retcode result))]))"
proof -
  obtain d st' evs where p: "place_order env symbol ot v p sl tp c st = (d, st')" "trace st' = trace st @ evs"
     "''error'' \<in> set (map fst d) \<longleftrightarrow> \<not> deal_done evs"
     "deal_done evs \<longrightarrow> map fst d = [''success'', ''order_id'', ''retcode'', ''comment'']"
    using place_order_shape [of env symbol ot v p sl tp c st] by (elim exE conjE) (rule that)
  obtain d2 st2 evs2 where q: "close_position env ticket st = (d2, st2)" "trace st2 = trace st @ evs2"
     "''error'' \<in> set (map fst d2) \<longleftrightarrow> \<not> deal_done evs2"
     "deal_done evs2 \<longrightarrow> map fst d2 = [''success'', ''order_id'', ''retcode'']"
    using close_position_shape [of env ticket st] by (elim exE conjE) (rule that)
  have np: "new_events st st' = evs" using p(2) by (rule new_events_append)
  have nq: "new_events st st2 = evs2" using q(2) by (rule new_events_append)
  have rp: "replay env (world st) evs = Some (world st')
     \<and> (''error'' \<notin> set (map fst d) \<longrightarrow>
          (\<exists>req w result. mt5_order_send env req w = (Inr (Some result), world st')
             \<and> retcode result = TRADE_RETCODE_DONE
             \<and> last evs = OrderSend req (Inr (Some result))
             \<and> d = [(''success'', PBool True), (''order_id'', PInt (res_order result)),
                    (''retcode'', PInt (retcode result)), (''comment'', PStr (res_comment result))]))"
    using place_order_run [of env symbol ot v p sl tp c st] p(1) p(2) by auto
  have rq: "replay env (world st) evs2 = Some (world st2)
     \<and> (''error'' \<notin> set (map fst d2) \<longrightarrow>
          (\<exists>req w result. mt5_order_send env req w = (Inr (Some result), world st2)
             \<and> retcode result = TRADE_RETCODE_DONE
             \<and> last evs2 = OrderSend req (Inr (Some result))
             \<and> d2 = [(''success'', PBool True), (''order_id'', PInt (res_order result)),
                    (''retcode'', PInt (retcode result))]))"
    using close_position_run [of env ticket st] q(1) q(2) by auto
  show ?thesis
    using p(3) p(4) q(3) q(4) rp rq
    by (simp only: p(1) q(1) fst_conv snd_conv np nq) blast
qed

text \<open>On the example terminal both deals are done and both dictionaries have the keys
  of a success, without \<^verbatim>\<open>error\<close>; on the terminal whose venue rejects every request the
  deal is not done and the dictionary has the key \<^verbatim>\<open>error\<close>.\<close>

theorem result_keys_witness:
  "deal_done (new_events demo_connected
       (snd (place_order demo_env ''EURUSD'' ORDER_TYPE_BUY 0.01 None None None ''WingZero'' demo_connected)))
   \<and> map fst (fst (place_order demo_env ''EURUSD'' ORDER_TYPE_BUY 0.01 None None None ''WingZero'' demo_connected))
       = [''success'', ''order_id'', ''retcode'', ''comment'']
   \<and> ''error'' \<notin> set (map fst (fst (place_order demo_env ''EURUSD'' ORDER_TYPE_BUY 0.01 None None None
          ''WingZero'' demo_connected)))
   \<and> deal_done (new_events demo_connected (snd (close_position demo_env 7 demo_connected)))
   \<and> map fst (fst (close_position demo_env 7 demo_connected)) = [''success'', ''order_id'', ''retcode'']
   \<and> ''error'' \<notin> set (map fst (fst (close_position demo_env 7 demo_connected)))
   \<and> \<not> deal_done (new_events demo_connected
       (snd (place_order demo_rejecting ''EURUSD'' ORDER_TYPE_BUY 0.01 None None None ''WingZero'' demo_connected)))
   \<and> ''error'' \<in> set (map fst (fst (place_order demo_rejecting ''EURUSD'' ORDER_TYPE_BUY 0.01 None None None
          ''WingZero'' demo_connected)))
   \<and> replay demo_env (world demo_connected) (new_events demo_connected
       (snd (place_order demo_env ''EURUSD'' ORDER_TYPE_BUY 0.01 None None None ''WingZero'' demo_connected)))
      = Some 6"
proof -
  have h1: "deal_done (new_events demo_connected
       (snd (place_order demo_env ''EURUSD'' ORDER_TYPE_BUY 0.01 None None None ''WingZero'' demo_connected)))"
    using demo_place_order
    by (simp add: new_events_def deal_done_def demo_done_def TRADE_RETCODE_DONE_def)
  have h2: "deal_done (new_events demo_connected (snd (close_position demo_env 7 demo_connected)))"
    using demo_close_long
    by (simp add: new_events_def deal_done_def demo_done_def TRADE_RETCODE_DONE_def)
  have h3: "\<not> deal_done (new_events demo_connected
       (snd (place_order demo_rejecting ''EURUSD'' ORDER_TYPE_BUY 0.01 None None None ''WingZero'' demo_connected)))"
    using demo_rejected
    by (simp add: new_events_def deal_done_def TRADE_RETCODE_DONE_def)
  have w: "world (snd (place_order demo_env ''EURUSD'' ORDER_TYPE_BUY 0.01 None None None ''WingZero''
        demo_connected)) = 6"
    using demo_place_order by simp
  note a = result_keys [where env = demo_env and symbol = "''EURUSD''" and ot = ORDER_TYPE_BUY
      and v = "0.01" and p = None and sl = None and tp = None and c = "''WingZero''"
      and st = demo_connected and ticket = 7]
  note b = result_keys [where env = demo_rejecting and symbol = "''EURUSD''" and ot = ORDER_TYPE_BUY
      and v = "0.01" and p = None and sl = None and tp = None and c = "''WingZero''"
      and st = demo_connected and ticket = 7]
  have r: "replay demo_env (world demo_connected) (new_events demo_connected
       (snd (place_order demo_env ''EURUSD'' ORDER_TYPE_BUY 0.01 None None None ''WingZero'' demo_connected)))
      = Some 6"
    using a w by simp
  show ?thesis
    using h1 h2 h3 r a b by blast
qed

section \<open>Refreshing the snapshots\<close>




section \<open>Connecting\<close>







section \<open>Disconnecting\<close>

text \<open>When \<^verbatim>\<open>mt5.shutdown()\<close> returns, \<^verbatim>\<open>disconnect\<close> returns with the status Disconnected
  and the worker told to stop; on a bridge that is already disconnected and not running
  it changes no field of the bridge, though it calls \<^verbatim>\<open>mt5.shutdown()\<close> once more.\<close>

lemma disconnect_when_shutdown_returns:
  assumes "mt5_shutdown env (world st) = (Inr (), w')"
  shows "fst (disconnect env st) = Inr ()"
    and "\<not> connected (snd (disconnect env st))"
    and "\<not> running (snd (disconnect env st))"
    and "\<not> connected st \<Longrightarrow> \<not> running st \<Longrightarrow>
           snd (disconnect env st) = st\<lparr>world := w', trace := trace (snd (disconnect env st))\<rparr>"
  using assms
  by (auto simp: disconnect_def call_def log_event_def Let_def split: option.splits)

text \<open>Claim C7 fails on the code. \<^verbatim>\<open>disconnect\<close> is the one method of the bridge that calls
  the terminal outside a \<^verbatim>\<open>try\<close>: on the terminal whose \<^verbatim>\<open>shutdown\<close> raises, \<^verbatim>\<open>disconnect\<close>
  on the connected bridge raises the same exception, and the status is still Connected
  afterwards.\<close>

theorem disconnect_raises:
  "connected demo_connected
   \<and> fst (disconnect demo_shutdown_raises demo_connected) = Inl ''IPC connection lost''
   \<and> connected (snd (disconnect demo_shutdown_raises demo_connected))
   \<and> fst (disconnect_mt5 demo_shutdown_raises demo_connected) = Inl ''IPC connection lost''"
  by (simp add: disconnect_mt5_def demo_disconnect) (simp add: demo_connected_eq)

section \<open>The streaming loop\<close>

text \<open>Claim C8. Every iteration of the worker on a connected bridge, whatever the
  terminal and the broadcaster do. When the loop over the watch-list has reached a
  symbol and its tick query fails (it raises or returns nothing), the symbol is passed
  over: nothing is stored or published for it, and the loop goes on with the symbols
  after it, from the state the failed query left. Over the whole iteration the symbols
  asked are an initial part of the watch-list, in order, every tick fetched is stored in
  \<^verbatim>\<open>market_data\<close>, and the record replays on the terminal. Either all symbols are asked
  and every tick fetched is published; or an \<^verbatim>\<open>emit\<close> raised, and then the last symbol
  asked is one whose tick was fetched, and all ticks fetched but that one are
  published: the loop never stops at a failed query. In particular, when no \<^verbatim>\<open>emit\<close>
  raises, all symbols are asked and all ticks fetched are published.\<close>

theorem stream_skips_failed_symbol:
  assumes "connected st"
  shows "(\<forall>pre s post st1.
            major_pairs = pre @ s # post
          \<and> stream_symbols env pre st = (None, st1)
          \<and> (\<forall>t. fst (mt5_symbol_info_tick env s (world st1)) \<noteq> Inr (Some t)) \<longrightarrow>
            stream_symbols env major_pairs st
              = stream_symbols env post
                  (st1\<lparr>world := snd (mt5_symbol_info_tick env s (world st1)),
                        trace := trace st1 @
                          [SymbolInfoTick s (fst (mt5_symbol_info_tick env s (world st1)))]\<rparr>))
    \<and> replay env (world st) (new_events st (worker_iteration env now st))
         = Some (world (worker_iteration env now st))
    \<and> market_data (worker_iteration env now st)
         = store_all (market_data st) (fetched (new_events st (worker_iteration env now st)))
    \<and> take (length (sampled (new_events st (worker_iteration env now st)))) major_pairs
         = sampled (new_events st (worker_iteration env now st))
    \<and> ((sampled (new_events st (worker_iteration env now st)) = major_pairs
          \<and> published (new_events st (worker_iteration env now st))
               = map snd (fetched (new_events st (worker_iteration env now st))))
        \<or> (\<exists>s t e. Emit ''market_data'' (PayDict (tick_dict s t)) (Inl e)
                        \<in> set (new_events st (worker_iteration env now st))
              \<and> fetched (new_events st (worker_iteration env now st)) \<noteq> []
              \<and> last (fetched (new_events st (worker_iteration env now st))) = (s, tick_dict s t)
              \<and> sampled (new_events st (worker_iteration env now st)) \<noteq> []
              \<and> last (sampled (new_events st (worker_iteration env now st))) = s
              \<and> published (new_events st (worker_iteration env now st))
                   = butlast (map snd (fetched (new_events st (worker_iteration env now st))))))
    \<and> ((\<forall>n p w. fst (socketio_emit env n p w) = Inr ()) \<longrightarrow>
          sampled (new_events st (worker_iteration env now st)) = major_pairs
        \<and> published (new_events st (worker_iteration env now st))
            = map snd (fetched (new_events st (worker_iteration env now st))))"
proof -
  have A: "\<forall>pre s post st1.
            major_pairs = pre @ s # post
          \<and> stream_symbols env pre st = (None, st1)
          \<and> (\<forall>t. fst (mt5_symbol_info_tick env s (world st1)) \<noteq> Inr (Some t)) \<longrightarrow>
            stream_symbols env major_pairs st
              = stream_symbols env post
                  (st1\<lparr>world := snd (mt5_symbol_info_tick env s (world st1)),
                        trace := trace st1 @
                          [SymbolInfoTick s (fst (mt5_symbol_info_tick env s (world st1)))]\<rparr>)"
  proof (intro allI impI)
    fix pre s post st1
    assume h: "major_pairs = pre @ s # post
          \<and> stream_symbols env pre st = (None, st1)
          \<and> (\<forall>t. fst (mt5_symbol_info_tick env s (world st1)) \<noteq> Inr (Some t))"
    then have "stream_symbols env (pre @ s # post) st
              = stream_symbols env post
                  (st1\<lparr>world := snd (mt5_symbol_info_tick env s (world st1)),
                        trace := trace st1 @
                          [SymbolInfoTick s (fst (mt5_symbol_info_tick env s (world st1)))]\<rparr>)"
      by (intro stream_symbols_skip [OF assms]) simp_all
    with h show "stream_symbols env major_pairs st
              = stream_symbols env post
                  (st1\<lparr>world := snd (mt5_symbol_info_tick env s (world st1)),
                        trace := trace st1 @
                          [SymbolInfoTick s (fst (mt5_symbol_info_tick env s (world st1)))]\<rparr>)"
      by simp
  qed
  obtain evs where r: "trace (worker_iteration env now st) = trace st @ evs"
      "replay env (world st) evs = Some (world (worker_iteration env now st))"
      "market_data (worker_iteration env now st) = store_all (market_data st) (fetched evs)"
      "take (length (sampled evs)) major_pairs = sampled evs"
      "(sampled evs = major_pairs \<and> published evs = map snd (fetched evs))
          \<or> (\<exists>s t e. Emit ''market_data'' (PayDict (tick_dict s t)) (Inl e) \<in> set evs
                \<and> fetched evs \<noteq> [] \<and> last (fetched evs) = (s, tick_dict s t)
                \<and> sampled evs \<noteq> [] \<and> last (sampled evs) = s
                \<and> published evs = butlast (map snd (fetched evs)))"
    using worker_iteration_run [OF assms, of env now] by (elim exE conjE) (rule that)
  have n: "new_events st (worker_iteration env now st) = evs"
    using r(1) by (rule new_events_append)
  have C: "(\<forall>n p w. fst (socketio_emit env n p w) = Inr ()) \<longrightarrow>
          sampled evs = major_pairs \<and> published evs = map snd (fetched evs)"
  proof
    assume e: "\<forall>n p w. fst (socketio_emit env n p w) = Inr ()"
    obtain evs' where "trace (worker_iteration env now st) = trace st @ evs'"
      "sampled evs' = major_pairs" "published evs' = map snd (fetched evs')"
      using worker_iteration_shape [OF e assms, of now] by (elim exE conjE) (rule that)
    with r(1) show "sampled evs = major_pairs \<and> published evs = map snd (fetched evs)"
      by simp
  qed
  show ?thesis
    using A r(2) r(3) r(4) r(5) C by (simp only: n)
qed

text \<open>An iteration on the terminal where the tick of GBPUSD is missing and the query for
  USDJPY raises: after EURUSD the loop passes over GBPUSD and goes on with the five
  symbols after it; all seven symbols are asked, and the five with a tick are published
  and stored. An iteration on the terminal where the tick of EURUSD is missing and
  \<^verbatim>\<open>emit\<close> raises: GBPUSD is asked all the same and its tick stored; the loop stops there,
  at the \<^verbatim>\<open>emit\<close> that raised.\<close>

theorem stream_skips_failed_symbol_witness:
  "connected demo_connected
   \<and> major_pairs = [''EURUSD''] @ ''GBPUSD'' # [''USDJPY'', ''USDCHF'', ''AUDUSD'', ''USDCAD'', ''NZDUSD'']
   \<and> fst (stream_symbols demo_gaps [''EURUSD''] demo_connected) = None
   \<and> world (snd (stream_symbols demo_gaps [''EURUSD''] demo_connected)) = 4
   \<and> mt5_symbol_info_tick demo_gaps ''GBPUSD'' 4 = (Inr None, 5)
   \<and> stream_symbols demo_gaps major_pairs demo_connected
       = stream_symbols demo_gaps [''USDJPY'', ''USDCHF'', ''AUDUSD'', ''USDCAD'', ''NZDUSD'']
           (snd (stream_symbols demo_gaps [''EURUSD''] demo_connected)
              \<lparr>world := 5,
               trace := trace (snd (stream_symbols demo_gaps [''EURUSD''] demo_connected))
                  @ [SymbolInfoTick ''GBPUSD'' (Inr None)]\<rparr>)
   \<and> (\<forall>n p w. fst (socketio_emit demo_gaps n p w) = Inr ())
   \<and> sampled (new_events demo_connected (worker_iteration demo_gaps 11 demo_connected))
       = [''EURUSD'', ''GBPUSD'', ''USDJPY'', ''USDCHF'', ''AUDUSD'', ''USDCAD'', ''NZDUSD'']
   \<and> map fst (fetched (new_events demo_connected (worker_iteration demo_gaps 11 demo_connected)))
       = [''EURUSD'', ''USDCHF'', ''AUDUSD'', ''USDCAD'', ''NZDUSD'']
   \<and> length (published (new_events demo_connected (worker_iteration demo_gaps 11 demo_connected))) = 5
   \<and> map fst (market_data (worker_iteration demo_gaps 11 demo_connected))
       = [''EURUSD'', ''USDCHF'', ''AUDUSD'', ''USDCAD'', ''NZDUSD'']
   \<and> sampled (new_events demo_connected (worker_iteration demo_emit_raises 11 demo_connected))
       = [''EURUSD'', ''GBPUSD'']
   \<and> fetched (new_events demo_connected (worker_iteration demo_emit_raises 11 demo_connected))
       = [(''GBPUSD'', tick_dict ''GBPUSD'' (demo_tick 4))]
   \<and> market_data (worker_iteration demo_emit_raises 11 demo_connected)
       = [(''GBPUSD'', tick_dict ''GBPUSD'' (demo_tick 4))]
   \<and> published (new_events demo_connected (worker_iteration demo_emit_raises 11 demo_connected)) = []"
proof -
  have h1: "connected demo_connected"
    by (simp add: demo_connected_eq)
  have h2: "\<forall>n p w. fst (socketio_emit demo_gaps n p w) = Inr ()"
    by (simp add: demo_gaps_def demo_env_def)
  have m: "major_pairs = [''EURUSD''] @ ''GBPUSD'' # [''USDJPY'', ''USDCHF'', ''AUDUSD'', ''USDCAD'', ''NZDUSD'']"
    by (simp add: major_pairs_def)
  have f: "fst (stream_symbols demo_gaps [''EURUSD''] demo_connected) = None"
    "world (snd (stream_symbols demo_gaps [''EURUSD''] demo_connected)) = 4"
    by (simp_all only: demo_first_symbol fst_conv snd_conv) simp
  have g: "mt5_symbol_info_tick demo_gaps ''GBPUSD'' 4 = (Inr None, 5)"
    by (simp add: demo_gaps_def demo_env_def)
  note t = stream_skips_failed_symbol [OF h1, where env = demo_gaps and now = 11]
  have p2: "stream_symbols demo_gaps [''EURUSD''] demo_connected
           = (None, snd (stream_symbols demo_gaps [''EURUSD''] demo_connected))"
    using f(1) by (metis prod.collapse)
  have p3: "\<forall>t. fst (mt5_symbol_info_tick demo_gaps ''GBPUSD''
              (world (snd (stream_symbols demo_gaps [''EURUSD''] demo_connected)))) \<noteq> Inr (Some t)"
    by (simp only: f(2) g fst_conv) simp
  have p: "major_pairs = [''EURUSD''] @ ''GBPUSD'' # [''USDJPY'', ''USDCHF'', ''AUDUSD'', ''USDCAD'', ''NZDUSD'']
      \<and> stream_symbols demo_gaps [''EURUSD''] demo_connected
           = (None, snd (stream_symbols demo_gaps [''EURUSD''] demo_connected))
      \<and> (\<forall>t. fst (mt5_symbol_info_tick demo_gaps ''GBPUSD''
              (world (snd (stream_symbols demo_gaps [''EURUSD''] demo_connected)))) \<noteq> Inr (Some t))"
    using m p2 p3 by (intro conjI)
  have a: "stream_symbols demo_gaps major_pairs demo_connected
       = stream_symbols demo_gaps [''USDJPY'', ''USDCHF'', ''AUDUSD'', ''USDCAD'', ''NZDUSD'']
           (snd (stream_symbols demo_gaps [''EURUSD''] demo_connected)
              \<lparr>world := 5,
               trace := trace (snd (stream_symbols demo_gaps [''EURUSD''] demo_connected))
                  @ [SymbolInfoTick ''GBPUSD'' (Inr None)]\<rparr>)"
    using t [THEN conjunct1, rule_format, OF p] by (simp only: f(2) g fst_conv snd_conv)
  have s: "sampled (new_events demo_connected (worker_iteration demo_gaps 11 demo_connected))
       = [''EURUSD'', ''GBPUSD'', ''USDJPY'', ''USDCHF'', ''AUDUSD'', ''USDCAD'', ''NZDUSD'']"
    using t h2 by (simp add: major_pairs_def)
  have d: "map fst (fetched (new_events demo_connected (worker_iteration demo_gaps 11 demo_connected)))
       = [''EURUSD'', ''USDCHF'', ''AUDUSD'', ''USDCAD'', ''NZDUSD'']"
    "length (published (new_events demo_connected (worker_iteration demo_gaps 11 demo_connected))) = 5"
    "map fst (market_data (worker_iteration demo_gaps 11 demo_connected))
       = [''EURUSD'', ''USDCHF'', ''AUDUSD'', ''USDCAD'', ''NZDUSD'']"
    by (simp_all add: demo_iteration)
  have e: "sampled (new_events demo_connected (worker_iteration demo_emit_raises 11 demo_connected))
       = [''EURUSD'', ''GBPUSD'']"
    "fetched (new_events demo_connected (worker_iteration demo_emit_raises 11 demo_connected))
       = [(''GBPUSD'', tick_dict ''GBPUSD'' (demo_tick 4))]"
    "market_data (worker_iteration demo_emit_raises 11 demo_connected)
       = [(''GBPUSD'', tick_dict ''GBPUSD'' (demo_tick 4))]"
    "published (new_events demo_connected (worker_iteration demo_emit_raises 11 demo_connected)) = []"
    by (simp_all add: demo_iteration_emit_raises)
  show ?thesis
    using h1 m f g a h2 s d e by blast
qed

end
